theory Spec2Isabelle
  imports Main
begin

section \<open>The real-time room coordination core of \<open>backend/socket/socketHandler.js\<close>\<close>

text \<open>
  The handlers of \<open>initializeSocket\<close> are embedded as functions from the server state to
  the new state and the list of events they emit, in emission order. One handler run
  reads the wall clock many times (\<open>new Date()\<close>); all readings of one run are the single
  instant \<open>now\<close> of the environment. Identifiers, tokens and aliases are strings;
  an optional payload field (\<open>undefined\<close> in JavaScript) is \<open>None\<close>.
\<close>

subsection \<open>JavaScript truthiness of optional strings\<close>

type_synonym time = nat

definition truthy :: "string option \<Rightarrow> bool" where
  \<comment> \<open>\<open>if (x)\<close> for a string or \<open>undefined\<close>: the empty string is falsy too.\<close>
  "truthy x = (case x of None \<Rightarrow> False | Some s \<Rightarrow> s \<noteq> [])"

definition js_or :: "string option \<Rightarrow> string option \<Rightarrow> string option" where
  \<comment> \<open>\<open>a || b\<close>\<close>
  "js_or a b = (if truthy a then a else b)"

definition or_default :: "string option \<Rightarrow> string \<Rightarrow> string" where
  \<comment> \<open>\<open>a || 'literal'\<close>\<close>
  "or_default a d = (case a of None \<Rightarrow> d | Some s \<Rightarrow> if s \<noteq> [] then s else d)"

subsection \<open>Data model\<close>

record user =
  user_id :: string
  user_alias :: string
  user_avatarIndex :: nat

text \<open>
  The fields the handlers attach to a socket.io socket, with the socket's own id, the
  handshake data read by the host join, and the set of rooms socket.io keeps for it.
\<close>

record socket =
  sock_id :: string
  userId :: string
  userAlias :: "string option"
  userAvatarIndex :: "nat option"
  isAnonymous :: bool
  address :: string
  userAgent :: "string option"
  rooms :: "string list"
  currentChatSession :: "string option"
  currentSanctuary :: "string option"
  currentSanctuaryHost :: "string option"
  currentAudioRoom :: "string option"
  hostToken :: "string option"

record HostSession =
  hs_sanctuaryId :: string
  hs_hostToken :: string
  hs_hostId :: "string option"
  hs_hostIp :: string
  hs_userAgent :: "string option"
  hs_expiresAt :: time
  hs_isActive :: bool
  hs_lastAccessed :: time

record submission =
  sub_id :: string
  sub_participantId :: string
  sub_participantAlias :: string
  sub_content :: string
  sub_type :: string
  sub_timestamp :: time

text \<open>
  A sanctuary document. Its \<open>submissions\<close> array is a list; a document without the
  array (\<open>undefined\<close>) is the document with the empty list: both handlers that read it
  treat the two alike (\<open>submissions?.length || 0\<close>, and the array is created before the
  first push).
\<close>

record SanctuarySession =
  ss_id :: string
  ss_hostId :: "string option"
  ss_topic :: string
  ss_description :: "string option"
  ss_emoji :: "string option"
  ss_isActive :: bool
  ss_expiresAt :: time
  ss_createdAt :: time
  ss_submissions :: "submission list"

text \<open>
  The server: the live connections in connection order (\<open>io.sockets.sockets\<close>) and the
  three collections of the durable store in their natural order.
\<close>

record server =
  sockets :: "socket list"
  users :: "user list"
  hostSessions :: "HostSession list"
  sanctuarySessions :: "SanctuarySession list"

text \<open>
  What a handler run takes from outside: the clock, the two random strings it draws, and
  whether the store accepts each write (\<open>Some msg\<close>: the awaited write rejects with
  \<open>Error(msg)\<close> and leaves the store as it was). Reads of the store are lookups in the
  collections.
\<close>

record env =
  now :: time
  nanoid32 :: string
  random36 :: string
  hostSession_save_rejects :: "string option"
  hostSession_updateAccess_rejects :: "string option"
  sanctuarySession_save_rejects :: "string option"

subsection \<open>Emitted events\<close>

datatype target =
    ToSocket string
  | ToRoom string
  | ToRoomExcept string string

text \<open>
  \<open>ToSocket i\<close> is \<open>socket.emit\<close> on the socket with id \<open>i\<close>, \<open>ToRoom r\<close> is
  \<open>io.to(r).emit\<close>, and \<open>ToRoomExcept r i\<close> is \<open>socket.to(r).emit\<close> on the socket with
  id \<open>i\<close>, which reaches the members of \<open>r\<close> other than that socket.
\<close>

record sessionInfo =
  si_topic :: string
  si_description :: "string option"
  si_emoji :: "string option"
  si_expiresAt :: time

datatype payload =
    user_joined string "string option" "string option" time
  | participant_joined string string time "bool option"
  | sanctuary_host_joined string nat time string sessionInfo
  | sanctuary_host_auth_failed string string string
  | sanctuary_error string
  | sanctuary_new_message submission
  | sanctuary_new_submission submission nat
  | audio_participant_joined string string bool bool time
  | kicked_from_room string string time
  | participant_kicked string string time
  | sanctuary_message_status string string time
  | user_left string "string option" time
  | participant_left string "string option" time
  | audio_participant_left string "string option" time

type_synonym emit = "target \<times> payload"

fun event_name :: "payload \<Rightarrow> string" where
  "event_name (user_joined _ _ _ _) = ''user_joined''"
| "event_name (participant_joined _ _ _ _) = ''participant_joined''"
| "event_name (sanctuary_host_joined _ _ _ _ _) = ''sanctuary_host_joined''"
| "event_name (sanctuary_host_auth_failed _ _ _) = ''sanctuary_host_auth_failed''"
| "event_name (sanctuary_error _) = ''sanctuary_error''"
| "event_name (sanctuary_new_message _) = ''sanctuary_new_message''"
| "event_name (sanctuary_new_submission _ _) = ''sanctuary_new_submission''"
| "event_name (audio_participant_joined _ _ _ _ _) = ''audio_participant_joined''"
| "event_name (kicked_from_room _ _ _) = ''kicked_from_room''"
| "event_name (participant_kicked _ _ _) = ''participant_kicked''"
| "event_name (sanctuary_message_status _ _ _) = ''sanctuary_message_status''"
| "event_name (user_left _ _ _) = ''user_left''"
| "event_name (participant_left _ _ _) = ''participant_left''"
| "event_name (audio_participant_left _ _ _) = ''audio_participant_left''"

definition connection :: "server \<Rightarrow> string \<Rightarrow> socket option" where
  \<comment> \<open>the live connection with a given socket id\<close>
  "connection st i = find (\<lambda>s. sock_id s = i) (sockets st)"

definition members :: "server \<Rightarrow> string \<Rightarrow> string list" where
  \<comment> \<open>the ids of the connections in a room, in connection order\<close>
  "members st r = map sock_id (filter (\<lambda>s. r \<in> set (rooms s)) (sockets st))"

fun recipients :: "server \<Rightarrow> target \<Rightarrow> string list" where
  "recipients st (ToSocket i) = filter (\<lambda>j. j = i) (map sock_id (sockets st))"
| "recipients st (ToRoom r) = members st r"
| "recipients st (ToRoomExcept r i) = filter (\<lambda>j. j \<noteq> i) (members st r)"

subsection \<open>Connection gateway: the \<open>io.use\<close> middleware\<close>

text \<open>
  \<open>jwt.verify(token, process.env.JWT_SECRET)\<close> is a parameter: \<open>None\<close> when it throws,
  otherwise the decoded payload, of which the middleware reads \<open>decoded.user.id\<close>.
  A payload without a \<open>user\<close> makes that read throw.
\<close>

datatype decoded = Decoded (decoded_user: "string option")

record identity =
  id_userId :: string
  id_userAlias :: "string option"
  id_userAvatarIndex :: "nat option"
  id_isAnonymous :: bool

definition authenticate ::
  "(string \<Rightarrow> decoded option) \<Rightarrow> user list \<Rightarrow> string option \<Rightarrow> string \<Rightarrow> string + identity" where
  "authenticate jwt_verify us token socket_id =
     (let anonymous = Inr \<lparr>id_userId = ''anonymous_'' @ socket_id, id_userAlias = None,
                           id_userAvatarIndex = None, id_isAnonymous = True\<rparr>
      in case token of
           None \<Rightarrow> anonymous
         | Some t \<Rightarrow>
             if t = [] then anonymous
             else
               (case jwt_verify t of
                  None \<Rightarrow> Inl ''Authentication error''
                | Some d \<Rightarrow>
                    (case decoded_user d of
                       None \<Rightarrow> Inl ''Authentication error''
                     | Some uid \<Rightarrow>
                         (case find (\<lambda>u. user_id u = uid) us of
                            None \<Rightarrow> Inl ''Authentication error''
                          | Some u \<Rightarrow>
                              Inr \<lparr>id_userId = user_id u, id_userAlias = Some (user_alias u),
                                   id_userAvatarIndex = Some (user_avatarIndex u),
                                   id_isAnonymous = False\<rparr>))))"

text \<open>
  A connection the middleware lets through enters the registry with the identity attached;
  socket.io puts every socket in the room named by its own id.
\<close>

definition connect ::
  "(string \<Rightarrow> decoded option) \<Rightarrow> string option \<Rightarrow> string \<Rightarrow> string \<Rightarrow> string option \<Rightarrow> server
     \<Rightarrow> string + server" where
  "connect jwt_verify token socket_id addr agent st =
     (case authenticate jwt_verify (users st) token socket_id of
        Inl err \<Rightarrow> Inl err
      | Inr who \<Rightarrow>
          Inr (st\<lparr>sockets := sockets st @
                 [\<lparr>sock_id = socket_id, userId = id_userId who, userAlias = id_userAlias who,
                   userAvatarIndex = id_userAvatarIndex who, isAnonymous = id_isAnonymous who,
                   address = addr, userAgent = agent, rooms = [socket_id],
                   currentChatSession = None, currentSanctuary = None,
                   currentSanctuaryHost = None, currentAudioRoom = None,
                   hostToken = None\<rparr>]\<rparr>))"

subsection \<open>Room membership\<close>

definition socket_join :: "string \<Rightarrow> socket \<Rightarrow> socket" where
  \<comment> \<open>\<open>socket.join(room)\<close>: the rooms of a socket are a set, and joining adds to it\<close>
  "socket_join r s = s\<lparr>rooms := List.insert r (rooms s)\<rparr>"

definition socket_leave :: "string \<Rightarrow> socket \<Rightarrow> socket" where
  \<comment> \<open>\<open>socket.leave(room)\<close>\<close>
  "socket_leave r s = s\<lparr>rooms := removeAll r (rooms s)\<rparr>"

definition update_socket :: "string \<Rightarrow> (socket \<Rightarrow> socket) \<Rightarrow> server \<Rightarrow> server" where
  \<comment> \<open>a handler's writes to its socket object, seen in the registry\<close>
  "update_socket i f st =
     st\<lparr>sockets := map (\<lambda>s. if sock_id s = i then f s else s) (sockets st)\<rparr>"

definition join_chat ::
  "env \<Rightarrow> socket \<Rightarrow> string \<Rightarrow> string option \<Rightarrow> server \<Rightarrow> server \<times> emit list" where
  "join_chat e sk sessionId userType st =
     (update_socket (sock_id sk)
        (\<lambda>s. (socket_join (''chat_'' @ sessionId) s)\<lparr>currentChatSession := Some sessionId\<rparr>) st,
      [(ToRoomExcept (''chat_'' @ sessionId) (sock_id sk),
        user_joined (userId sk) (userAlias sk) userType (now e))])"

text \<open>
  \<open>join_sanctuary\<close> and \<open>join_audio_room\<close> take the \<open>participant\<close> object of the payload
  by its fields.
\<close>

definition join_sanctuary ::
  "env \<Rightarrow> socket \<Rightarrow> string \<Rightarrow> string option \<Rightarrow> bool option \<Rightarrow> server \<Rightarrow> server \<times> emit list" where
  "join_sanctuary e sk sanctuaryId p_alias p_isAnonymous st =
     (update_socket (sock_id sk)
        (\<lambda>s. (socket_join (''sanctuary_'' @ sanctuaryId) s)\<lparr>currentSanctuary := Some sanctuaryId\<rparr>) st,
      [(ToRoomExcept (''sanctuary_'' @ sanctuaryId) (sock_id sk),
        participant_joined (userId sk)
          (or_default (js_or p_alias (userAlias sk)) ''Anonymous'') (now e)
          (if isAnonymous sk then Some True else p_isAnonymous))])"

definition join_audio_room ::
  "env \<Rightarrow> socket \<Rightarrow> string \<Rightarrow> string option \<Rightarrow> bool option \<Rightarrow> bool option \<Rightarrow> server
     \<Rightarrow> server \<times> emit list" where
  "join_audio_room e sk sessionId p_alias p_isHost p_isModerator st =
     (update_socket (sock_id sk)
        (\<lambda>s. (socket_join (''audio_room_'' @ sessionId) s)\<lparr>currentAudioRoom := Some sessionId\<rparr>) st,
      [(ToRoomExcept (''audio_room_'' @ sessionId) (sock_id sk),
        audio_participant_joined (userId sk)
          (or_default (js_or p_alias (userAlias sk)) ''Anonymous'')
          (p_isHost = Some True) (p_isModerator = Some True) (now e))])"

subsection \<open>The durable store\<close>

text \<open>
  \<open>Model.findOne(query)\<close>: the first document of the collection that satisfies the
  query, with its position, which stands for the document's identity when it is saved.
\<close>

primrec findOne :: "('a \<Rightarrow> bool) \<Rightarrow> 'a list \<Rightarrow> (nat \<times> 'a) option" where
  "findOne P [] = None"
| "findOne P (x # xs) =
     (if P x then Some (0, x) else map_option (\<lambda>(i, y). (Suc i, y)) (findOne P xs))"

definition host_query :: "time \<Rightarrow> string \<Rightarrow> string \<Rightarrow> HostSession \<Rightarrow> bool" where
  \<comment> \<open>\<open>{hostToken, sanctuaryId, isActive: true, expiresAt: {$gt: new Date()}}\<close>\<close>
  "host_query t sanctuaryId tok h =
     (hs_hostToken h = tok \<and> hs_sanctuaryId h = sanctuaryId \<and> hs_isActive h \<and> t < hs_expiresAt h)"

definition owner_query :: "time \<Rightarrow> string \<Rightarrow> string \<Rightarrow> SanctuarySession \<Rightarrow> bool" where
  \<comment> \<open>\<open>{id: sanctuaryId, hostId: socket.userId, isActive: true, expiresAt: {$gt: new Date()}}\<close>\<close>
  "owner_query t sanctuaryId uid s =
     (ss_id s = sanctuaryId \<and> ss_hostId s = Some uid \<and> ss_isActive s \<and> t < ss_expiresAt s)"

definition sanctuary_query :: "time \<Rightarrow> string \<Rightarrow> SanctuarySession \<Rightarrow> bool" where
  \<comment> \<open>\<open>{id: sanctuaryId, isActive: true, expiresAt: {$gt: new Date()}}\<close>\<close>
  "sanctuary_query t sanctuaryId s =
     (ss_id s = sanctuaryId \<and> ss_isActive s \<and> t < ss_expiresAt s)"

definition mint :: "env \<Rightarrow> socket \<Rightarrow> string \<Rightarrow> string option \<Rightarrow> SanctuarySession \<Rightarrow> HostSession" where
  \<comment> \<open>Modelled from the spec: the schema of \<open>models/HostSession.js\<close> is not under src.
      The six fields the handler passes to \<open>new HostSession\<close> are as in the handler; the
      schema's defaults are the spec's: a HostSession is active on mint, and its
      last access is the time of the mint.\<close>
  "mint e sk sanctuaryId tok s =
     \<lparr>hs_sanctuaryId = sanctuaryId,
      hs_hostToken = or_default tok (nanoid32 e),
      hs_hostId = Some (userId sk),
      hs_hostIp = address sk,
      hs_userAgent = userAgent sk,
      hs_expiresAt = ss_expiresAt s,
      hs_isActive = True,
      hs_lastAccessed = now e\<rparr>"

definition updateAccess :: "time \<Rightarrow> HostSession \<Rightarrow> HostSession" where
  \<comment> \<open>Modelled from the spec: the method \<open>updateAccess\<close> of \<open>models/HostSession.js\<close> is
      not under src. The spec: the last-access timestamp is bumped on every successful
      re-verification.\<close>
  "updateAccess t h = h\<lparr>hs_lastAccessed := t\<rparr>"


subsection \<open>Host session authority: \<open>join_sanctuary_host\<close>\<close>

definition host_snapshot :: "string \<Rightarrow> HostSession \<Rightarrow> SanctuarySession \<Rightarrow> payload" where
  "host_snapshot sanctuaryId h s =
     sanctuary_host_joined sanctuaryId
       (length (ss_submissions s))
       (if length (ss_submissions s) > 0 then sub_timestamp (last (ss_submissions s))
        else ss_createdAt s)
       (hs_hostToken h)
       \<lparr>si_topic = ss_topic s, si_description = ss_description s, si_emoji = ss_emoji s,
        si_expiresAt = ss_expiresAt s\<rparr>"

text \<open>
  The part of the handler under \<open>if (hostSession)\<close>, for the host session \<open>h\<close> stored at
  position \<open>i\<close> and the sanctuary document the owner branch has loaded, if it ran.
  \<open>Inl msg\<close> is an exception with that message, thrown with the state reached so far.
\<close>

definition host_enter ::
  "env \<Rightarrow> socket \<Rightarrow> string \<Rightarrow> nat \<Rightarrow> HostSession \<Rightarrow> SanctuarySession option \<Rightarrow> server
     \<Rightarrow> server \<times> (string + payload)" where
  "host_enter e sk sanctuaryId i h loaded st =
     (case hostSession_updateAccess_rejects e of
        Some msg \<Rightarrow> (st, Inl msg)
      | None \<Rightarrow>
          (let h' = updateAccess (now e) h;
               st1 = st\<lparr>hostSessions := (hostSessions st)[i := h']\<rparr>;
               sanctuarySession =
                 (case loaded of
                    Some s \<Rightarrow> Some s
                  | None \<Rightarrow>
                      map_option snd
                        (findOne (sanctuary_query (now e) sanctuaryId) (sanctuarySessions st1)))
           in case sanctuarySession of
                Some s \<Rightarrow>
                  (update_socket (sock_id sk)
                     (\<lambda>c. (socket_join (''sanctuary_host_'' @ sanctuaryId) c)
                            \<lparr>currentSanctuaryHost := Some sanctuaryId,
                             hostToken := Some (hs_hostToken h')\<rparr>) st1,
                   Inr (host_snapshot sanctuaryId h' s))
              | None \<Rightarrow> (st1, Inl ''Sanctuary session not found or expired'')))"

text \<open>The body of the handler's \<open>try\<close>.\<close>

definition join_sanctuary_host_try ::
  "env \<Rightarrow> socket \<Rightarrow> string \<Rightarrow> string option \<Rightarrow> server \<Rightarrow> server \<times> (string + payload)" where
  "join_sanctuary_host_try e sk sanctuaryId tok st =
     (let byToken =
            (case tok of
               None \<Rightarrow> None
             | Some t \<Rightarrow>
                 if t = [] then None
                 else findOne (host_query (now e) sanctuaryId t) (hostSessions st))
      in case byToken of
           Some (i, h) \<Rightarrow> host_enter e sk sanctuaryId i h None st
         | None \<Rightarrow>
             if \<not> isAnonymous sk then
               (case findOne (owner_query (now e) sanctuaryId (userId sk)) (sanctuarySessions st) of
                  Some (j, s) \<Rightarrow>
                    (case hostSession_save_rejects e of
                       Some msg \<Rightarrow> (st, Inl msg)
                     | None \<Rightarrow>
                         (let h = mint e sk sanctuaryId tok s
                          in host_enter e sk sanctuaryId (length (hostSessions st)) h (Some s)
                               (st\<lparr>hostSessions := hostSessions st @ [h]\<rparr>)))
                | None \<Rightarrow> (st, Inl ''Host authorization failed''))
             else (st, Inl ''Host authorization failed''))"

definition join_sanctuary_host ::
  "env \<Rightarrow> socket \<Rightarrow> string \<Rightarrow> string option \<Rightarrow> server \<Rightarrow> server \<times> emit list" where
  "join_sanctuary_host e sk sanctuaryId tok st =
     (case join_sanctuary_host_try e sk sanctuaryId tok st of
        (st', Inr joined) \<Rightarrow> (st', [(ToSocket (sock_id sk), joined)])
      | (st', Inl msg) \<Rightarrow>
          (st', [(ToSocket (sock_id sk),
                  sanctuary_host_auth_failed sanctuaryId
                    ''Not authorized as host for this sanctuary'' msg)]))"

subsection \<open>Submission persistence bridge: \<open>sanctuary_message\<close>\<close>

fun dec :: "nat \<Rightarrow> string" where
  "dec n = (if n < 10 then [char_of (48 + n)] else dec (n div 10) @ [char_of (48 + n mod 10)])"

definition new_submission ::
  "env \<Rightarrow> socket \<Rightarrow> string \<Rightarrow> string option \<Rightarrow> string option \<Rightarrow> submission" where
  "new_submission e sk content type participantAlias =
     \<lparr>sub_id = ''sanctuary_msg_'' @ dec (now e) @ ''_'' @ random36 e,
      sub_participantId = userId sk,
      sub_participantAlias = or_default (js_or participantAlias (userAlias sk)) ''Anonymous'',
      sub_content = content,
      sub_type = (case type of None \<Rightarrow> ''text'' | Some t \<Rightarrow> t),
      sub_timestamp = now e\<rparr>"

definition sanctuary_message ::
  "env \<Rightarrow> socket \<Rightarrow> string \<Rightarrow> string \<Rightarrow> string option \<Rightarrow> string option \<Rightarrow> server
     \<Rightarrow> server \<times> emit list" where
  "sanctuary_message e sk sanctuaryId content type participantAlias st =
     (case findOne (sanctuary_query (now e) sanctuaryId) (sanctuarySessions st) of
        None \<Rightarrow>
          (st, [(ToSocket (sock_id sk), sanctuary_error ''Sanctuary session not found or expired'')])
      | Some (i, s) \<Rightarrow>
          (let message = new_submission e sk content type participantAlias;
               s' = s\<lparr>ss_submissions := ss_submissions s @ [message]\<rparr>
           in case sanctuarySession_save_rejects e of
                Some msg \<Rightarrow> (st, [(ToSocket (sock_id sk), sanctuary_error ''Failed to send message'')])
              | None \<Rightarrow>
                  (st\<lparr>sanctuarySessions := (sanctuarySessions st)[i := s']\<rparr>,
                   [(ToRoom (''sanctuary_'' @ sanctuaryId), sanctuary_new_message message),
                    (ToRoom (''sanctuary_host_'' @ sanctuaryId),
                     sanctuary_new_submission message (length (ss_submissions s')))])))"

subsection \<open>Moderation, read receipts and teardown\<close>

definition kick_participant ::
  "env \<Rightarrow> socket \<Rightarrow> string \<Rightarrow> string \<Rightarrow> server \<Rightarrow> server \<times> emit list" where
  "kick_participant e sk sessionId participantId st =
     (case find (\<lambda>s. userId s = participantId) (sockets st) of
        None \<Rightarrow> (st, [])
      | Some targetSocket \<Rightarrow>
          (update_socket (sock_id targetSocket) (socket_leave (''audio_room_'' @ sessionId)) st,
           [(ToSocket (sock_id targetSocket), kicked_from_room sessionId (userId sk) (now e)),
            (ToRoomExcept (''audio_room_'' @ sessionId) (sock_id sk),
             participant_kicked participantId (userId sk) (now e))]))"

definition sanctuary_message_read ::
  "env \<Rightarrow> socket \<Rightarrow> string \<Rightarrow> string \<Rightarrow> string option \<Rightarrow> server \<Rightarrow> server \<times> emit list" where
  "sanctuary_message_read e sk sanctuaryId messageId tok st =
     (st, [(ToRoomExcept (''sanctuary_'' @ sanctuaryId) (sock_id sk),
            sanctuary_message_status messageId ''read'' (now e))])"

text \<open>
  socket.io takes a closing socket out of every room and out of the registry before it
  fires \<open>disconnect\<close>; the handler then runs on the socket object, whose \<open>current...\<close>
  fields it reads. \<open>when_current c f\<close> is \<open>if (c) { f(c) }\<close>.
\<close>

definition when_current :: "string option \<Rightarrow> (string \<Rightarrow> emit list) \<Rightarrow> emit list" where
  "when_current c f = (case c of None \<Rightarrow> [] | Some r \<Rightarrow> if r \<noteq> [] then f r else [])"

definition disconnect :: "env \<Rightarrow> socket \<Rightarrow> server \<Rightarrow> server \<times> emit list" where
  "disconnect e sk st =
     (st\<lparr>sockets := filter (\<lambda>s. sock_id s \<noteq> sock_id sk) (sockets st)\<rparr>,
      when_current (currentChatSession sk)
        (\<lambda>r. [(ToRoomExcept (''chat_'' @ r) (sock_id sk),
               user_left (userId sk) (userAlias sk) (now e))]) @
      when_current (currentSanctuary sk)
        (\<lambda>r. [(ToRoomExcept (''sanctuary_'' @ r) (sock_id sk),
               participant_left (userId sk) (userAlias sk) (now e))]) @
      \<comment> \<open>the host room: the handler only writes to the log\<close>
      when_current (currentSanctuaryHost sk) (\<lambda>r. []) @
      when_current (currentAudioRoom sk)
        (\<lambda>r. [(ToRoomExcept (''audio_room_'' @ r) (sock_id sk),
               audio_participant_left (userId sk) (userAlias sk) (now e))]))"

subsection \<open>Dispatch of the inbound events of one connection\<close>

datatype event =
    JoinChat string "string option"
  | JoinSanctuary string "string option" "bool option"
  | JoinSanctuaryHost string "string option"
  | SanctuaryMessage string string "string option" "string option"
  | JoinAudioRoom string "string option" "bool option" "bool option"
  | KickParticipant string string
  | SanctuaryMessageRead string string "string option"
  | Disconnect

definition handle :: "env \<Rightarrow> string \<Rightarrow> event \<Rightarrow> server \<Rightarrow> server \<times> emit list" where
  \<comment> \<open>the handler of the event, on the connection with the given id; a connection that
      is not live has no handlers\<close>
  "handle e i ev st =
     (case connection st i of
        None \<Rightarrow> (st, [])
      | Some sk \<Rightarrow>
          (case ev of
             JoinChat sessionId userType \<Rightarrow> join_chat e sk sessionId userType st
           | JoinSanctuary sanctuaryId a anon \<Rightarrow> join_sanctuary e sk sanctuaryId a anon st
           | JoinSanctuaryHost sanctuaryId tok \<Rightarrow> join_sanctuary_host e sk sanctuaryId tok st
           | SanctuaryMessage sanctuaryId content type a \<Rightarrow>
               sanctuary_message e sk sanctuaryId content type a st
           | JoinAudioRoom sessionId a h m \<Rightarrow> join_audio_room e sk sessionId a h m st
           | KickParticipant sessionId participantId \<Rightarrow>
               kick_participant e sk sessionId participantId st
           | SanctuaryMessageRead sanctuaryId messageId tok \<Rightarrow>
               sanctuary_message_read e sk sanctuaryId messageId tok st
           | Disconnect \<Rightarrow> disconnect e sk st))"

section \<open>Concrete scenarios\<close>

text \<open>
  A small deployment on which the properties below are exercised. The clock reads 1000.
  Alice (user \<open>u1\<close>) is connected on socket \<open>s1\<close> and a guest on socket \<open>s2\<close>. Sanctuary
  \<open>sid-1\<close> expired at 900; \<open>sid-2\<close> is Alice's, fresh and without submissions; \<open>sid-3\<close> has
  two submissions. The store holds a live host session for \<open>sid-3\<close> and one for \<open>sid-2\<close>
  that expired at 900.
\<close>

definition jwt_demo :: "string \<Rightarrow> decoded option" where
  "jwt_demo t = (if t = ''good'' then Some (Decoded (Some ''u1''))
                 else if t = ''stale'' then Some (Decoded (Some ''u9'')) else None)"

definition users_demo :: "user list" where
  "users_demo = [\<lparr>user_id = ''u1'', user_alias = ''alice'', user_avatarIndex = 3\<rparr>]"

definition env_demo :: env where
  "env_demo = \<lparr>now = 1000, nanoid32 = ''V1StGXR8_Z5jdHi6B-myT0123456789a'', random36 = ''k3x9q0z1a'',
               hostSession_save_rejects = None, hostSession_updateAccess_rejects = None,
               sanctuarySession_save_rejects = None\<rparr>"

definition alice :: socket where
  "alice = \<lparr>sock_id = ''s1'', userId = ''u1'', userAlias = Some ''alice'',
            userAvatarIndex = Some 3, isAnonymous = False, address = ''10.0.0.1'',
            userAgent = Some ''agent'', rooms = [''s1''], currentChatSession = None,
            currentSanctuary = None, currentSanctuaryHost = None, currentAudioRoom = None,
            hostToken = None\<rparr>"

definition guest :: socket where
  "guest = \<lparr>sock_id = ''s2'', userId = ''anonymous_s2'', userAlias = None,
            userAvatarIndex = None, isAnonymous = True, address = ''10.0.0.2'',
            userAgent = None, rooms = [''s2''], currentChatSession = None,
            currentSanctuary = None, currentSanctuaryHost = None, currentAudioRoom = None,
            hostToken = None\<rparr>"

definition sub1 :: submission where
  "sub1 = \<lparr>sub_id = ''sanctuary_msg_600_aaa'', sub_participantId = ''anonymous_s7'',
           sub_participantAlias = ''Anonymous'', sub_content = ''first'', sub_type = ''text'',
           sub_timestamp = 600\<rparr>"

definition sub2 :: submission where
  "sub2 = \<lparr>sub_id = ''sanctuary_msg_700_bbb'', sub_participantId = ''anonymous_s8'',
           sub_participantAlias = ''Anonymous'', sub_content = ''second'', sub_type = ''text'',
           sub_timestamp = 700\<rparr>"

definition sanctuary1 :: SanctuarySession where
  "sanctuary1 = \<lparr>ss_id = ''sid-1'', ss_hostId = None, ss_topic = ''old'', ss_description = None,
                 ss_emoji = None, ss_isActive = True, ss_expiresAt = 900, ss_createdAt = 100,
                 ss_submissions = [sub1]\<rparr>"

definition sanctuary2 :: SanctuarySession where
  "sanctuary2 = \<lparr>ss_id = ''sid-2'', ss_hostId = Some ''u1'', ss_topic = ''fresh'',
                 ss_description = Some ''new inbox'', ss_emoji = None, ss_isActive = True,
                 ss_expiresAt = 2000, ss_createdAt = 500, ss_submissions = []\<rparr>"

definition sanctuary3 :: SanctuarySession where
  "sanctuary3 = \<lparr>ss_id = ''sid-3'', ss_hostId = None, ss_topic = ''busy'', ss_description = None,
                 ss_emoji = Some ''leaf'', ss_isActive = True, ss_expiresAt = 3000,
                 ss_createdAt = 400, ss_submissions = [sub1, sub2]\<rparr>"

definition host3 :: HostSession where
  "host3 = \<lparr>hs_sanctuaryId = ''sid-3'', hs_hostToken = ''tok-3'', hs_hostId = None,
            hs_hostIp = ''10.0.0.9'', hs_userAgent = None, hs_expiresAt = 3000,
            hs_isActive = True, hs_lastAccessed = 450\<rparr>"

definition host2_expired :: HostSession where
  "host2_expired = \<lparr>hs_sanctuaryId = ''sid-2'', hs_hostToken = ''tok-old'', hs_hostId = Some ''u1'',
            hs_hostIp = ''10.0.0.1'', hs_userAgent = None, hs_expiresAt = 900,
            hs_isActive = True, hs_lastAccessed = 550\<rparr>"

definition server_demo :: server where
  "server_demo = \<lparr>sockets = [alice, guest], users = users_demo,
                  hostSessions = [host3, host2_expired],
                  sanctuarySessions = [sanctuary1, sanctuary2, sanctuary3]\<rparr>"


text \<open>The store refuses the write of a sanctuary document.\<close>

definition env_store_down :: env where
  "env_store_down = env_demo\<lparr>sanctuarySession_save_rejects := Some ''write refused''\<rparr>"

text \<open>
  The guest joins chat room \<open>A\<close> and then chat room \<open>B\<close>; the guest joins the host
  channel of \<open>sid-3\<close> with its token; a connection that is in a chat room and an audio room,
  and one that is in a sanctuary only.
\<close>

definition after_chat_join_A :: server where
  "after_chat_join_A = fst (handle env_demo ''s2'' (JoinChat ''A'' None) server_demo)"

definition after_two_chat_joins :: server where
  "after_two_chat_joins = fst (handle env_demo ''s2'' (JoinChat ''B'' None) after_chat_join_A)"

definition after_host_join :: server where
  "after_host_join =
     fst (handle env_demo ''s2'' (JoinSanctuaryHost ''sid-3'' (Some ''tok-3'')) server_demo)"

definition in_chat_and_audio :: socket where
  "in_chat_and_audio = guest\<lparr>rooms := [''audio_room_R'', ''chat_A'', ''s2''],
     currentChatSession := Some ''A'', currentAudioRoom := Some ''R''\<rparr>"

definition in_sanctuary_only :: socket where
  "in_sanctuary_only = guest\<lparr>rooms := [''sanctuary_sid-3'', ''s2''],
     currentSanctuary := Some ''sid-3''\<rparr>"

section \<open>Properties\<close>

subsection \<open>Lookups\<close>

lemma findOne_None_iff: "findOne P xs = None \<longleftrightarrow> (\<forall>x\<in>set xs. \<not> P x)"
  by (induction xs) auto

lemma findOne_SomeD:
  "findOne P xs = Some (i, y) \<Longrightarrow> i < length xs \<and> xs ! i = y \<and> P y"
  by (induction xs arbitrary: i) (auto split: if_splits)

lemma findOne_Some_mem: "findOne P xs = Some (i, y) \<Longrightarrow> y \<in> set xs"
  using findOne_SomeD[of P xs i y] by (auto simp: in_set_conv_nth)

lemma find_user_mem:
  "find (\<lambda>u. user_id u = uid) us = Some u \<Longrightarrow> u \<in> set us \<and> user_id u = uid"
  by (induction us) (auto split: if_splits)

lemma distinct_map_key:
  "distinct (map f xs) \<Longrightarrow> x \<in> set xs \<Longrightarrow> y \<in> set xs \<Longrightarrow> f x = f y \<Longrightarrow> x = y"
  by (meson distinct_map inj_on_eq_iff)

lemma findOne_the_sanctuary:
  assumes "distinct (map ss_id xs)" "S \<in> set xs" "P S" "\<And>s. P s \<Longrightarrow> ss_id s = ss_id S"
  shows "\<exists>i. findOne P xs = Some (i, S)"
proof (cases "findOne P xs")
  case None
  with assms(2,3) show ?thesis by (simp add: findOne_None_iff)
next
  case (Some p)
  obtain i y where p: "p = (i, y)" by (cases p)
  from Some p have "y \<in> set xs" "P y"
    using findOne_Some_mem findOne_SomeD by fastforce+
  with assms have "y = S" using distinct_map_key[of ss_id xs y S] by blast
  with Some p show ?thesis by simp
qed

lemma connection_update_socket:
  "connection st i = Some sk \<Longrightarrow> sock_id (f sk) = i \<Longrightarrow>
     connection (update_socket i f st) i = Some (f sk)"
proof -
  have "find (\<lambda>s. sock_id s = i) xs = Some sk \<Longrightarrow> sock_id (f sk) = i \<Longrightarrow>
        find (\<lambda>s. sock_id s = i) (map (\<lambda>s. if sock_id s = i then f s else s) xs) = Some (f sk)"
    for xs
    by (induction xs) (auto split: if_splits)
  then show "connection st i = Some sk \<Longrightarrow> sock_id (f sk) = i \<Longrightarrow>
     connection (update_socket i f st) i = Some (f sk)"
    by (simp add: connection_def update_socket_def)
qed

lemma connection_sock_id: "connection st i = Some sk \<Longrightarrow> sock_id sk = i"
  by (auto simp: connection_def dest: find_Some_iff[THEN iffD1])

subsection \<open>The scenarios are states the handlers reach\<close>

lemma server_demo_connected:
  "connect jwt_demo None ''s2'' ''10.0.0.2'' None (server_demo\<lparr>sockets := [alice]\<rparr>) = Inr server_demo"
  by (simp add: connect_def authenticate_def server_demo_def guest_def)

lemma after_chat_join_A_sockets:
  "sockets after_chat_join_A =
     [alice, guest\<lparr>rooms := [''chat_A'', ''s2''], currentChatSession := Some ''A''\<rparr>]"
  by (simp add: after_chat_join_A_def handle_def connection_def join_chat_def
      update_socket_def socket_join_def server_demo_def alice_def guest_def)

lemma after_two_chat_joins_sockets:
  "sockets after_two_chat_joins =
     [alice, guest\<lparr>rooms := [''chat_B'', ''chat_A'', ''s2''], currentChatSession := Some ''B''\<rparr>]"
  by (simp add: after_two_chat_joins_def handle_def connection_def join_chat_def
      update_socket_def socket_join_def after_chat_join_A_sockets alice_def guest_def)

lemma after_host_join_sockets:
  "sockets after_host_join =
     [alice, guest\<lparr>rooms := [''sanctuary_host_sid-3'', ''s2''],
                   currentSanctuaryHost := Some ''sid-3'', hostToken := Some ''tok-3''\<rparr>]"
  by (simp add: after_host_join_def handle_def connection_def join_sanctuary_host_def
      join_sanctuary_host_try_def host_enter_def host_query_def sanctuary_query_def
      updateAccess_def host_snapshot_def update_socket_def socket_join_def Let_def
      server_demo_def host3_def host2_expired_def sanctuary1_def sanctuary2_def sanctuary3_def
      env_demo_def alice_def guest_def)

lemma guest_host_join_events:
  "snd (join_sanctuary_host env_demo guest ''sid-3'' (Some ''tok-3'') server_demo) =
     [(ToSocket (sock_id guest),
       sanctuary_host_joined ''sid-3'' 2 700 ''tok-3''
         \<lparr>si_topic = ''busy'', si_description = None, si_emoji = Some ''leaf'',
          si_expiresAt = 3000\<rparr>)]"
  by (simp add: join_sanctuary_host_def
      join_sanctuary_host_try_def host_enter_def host_query_def sanctuary_query_def
      updateAccess_def host_snapshot_def update_socket_def socket_join_def Let_def
      server_demo_def host3_def host2_expired_def sanctuary1_def sanctuary2_def sanctuary3_def
      sub1_def sub2_def env_demo_def alice_def guest_def)

subsection \<open>The host join, step by step\<close>

lemma host_enter_found:
  assumes "hostSession_updateAccess_rejects e = None"
    and "loaded = Some S \<or>
         (loaded = None \<and> (\<exists>j. findOne (sanctuary_query (now e) sanctuaryId) (sanctuarySessions st) = Some (j, S)))"
  shows "host_enter e sk sanctuaryId i h loaded st =
           (update_socket (sock_id sk)
              (\<lambda>c. (socket_join (''sanctuary_host_'' @ sanctuaryId) c)
                     \<lparr>currentSanctuaryHost := Some sanctuaryId, hostToken := Some (hs_hostToken h)\<rparr>)
              (st\<lparr>hostSessions := (hostSessions st)[i := updateAccess (now e) h]\<rparr>),
            Inr (host_snapshot sanctuaryId (updateAccess (now e) h) S))"
  using assms by (auto simp: host_enter_def Let_def updateAccess_def)

lemma host_enter_joined:
  assumes "host_enter e sk sanctuaryId i h loaded st = (st', Inr p)"
  shows "\<exists>st1 t. sockets st1 = sockets st \<and>
           st' = update_socket (sock_id sk)
                   (\<lambda>c. (socket_join (''sanctuary_host_'' @ sanctuaryId) c)
                          \<lparr>currentSanctuaryHost := Some sanctuaryId, hostToken := Some t\<rparr>) st1"
proof (cases "hostSession_updateAccess_rejects e")
  case (Some msg)
  with assms show ?thesis by (simp add: host_enter_def)
next
  case None
  let ?st1 = "st\<lparr>hostSessions := (hostSessions st)[i := updateAccess (now e) h]\<rparr>"
  have "sockets ?st1 = sockets st" by simp
  moreover have "st' = update_socket (sock_id sk)
                   (\<lambda>c. (socket_join (''sanctuary_host_'' @ sanctuaryId) c)
                          \<lparr>currentSanctuaryHost := Some sanctuaryId,
                           hostToken := Some (hs_hostToken (updateAccess (now e) h))\<rparr>) ?st1"
    using assms None by (auto simp: host_enter_def Let_def split: option.splits)
  ultimately show ?thesis by blast
qed

lemma join_sanctuary_host_try_joined:
  assumes "join_sanctuary_host_try e sk sanctuaryId tok st = (st', Inr p)"
  shows "\<exists>st1 t. sockets st1 = sockets st \<and>
           st' = update_socket (sock_id sk)
                   (\<lambda>c. (socket_join (''sanctuary_host_'' @ sanctuaryId) c)
                          \<lparr>currentSanctuaryHost := Some sanctuaryId, hostToken := Some t\<rparr>) st1"
proof -
  from assms consider
    (found) i h where "host_enter e sk sanctuaryId i h None st = (st', Inr p)"
  | (minted) h S where
      "host_enter e sk sanctuaryId (length (hostSessions st)) h (Some S)
         (st\<lparr>hostSessions := hostSessions st @ [h]\<rparr>) = (st', Inr p)"
    by (auto simp: join_sanctuary_host_try_def Let_def split: option.splits if_splits prod.splits)
  then show ?thesis
  proof cases
    case found
    then show ?thesis by (rule host_enter_joined)
  next
    case minted
    from host_enter_joined[OF minted] show ?thesis by simp
  qed
qed

lemma join_sanctuary_host_joined_try:
  assumes "snd (join_sanctuary_host e sk sanctuaryId tok st) =
             [(ToSocket (sock_id sk), sanctuary_host_joined a b c d f)]"
  shows "\<exists>p. join_sanctuary_host_try e sk sanctuaryId tok st =
              (fst (join_sanctuary_host e sk sanctuaryId tok st), Inr p)"
  using assms
  by (cases "join_sanctuary_host_try e sk sanctuaryId tok st")
     (auto simp: join_sanctuary_host_def split: sum.splits)

lemma connection_after_join:
  assumes "connection st (sock_id sk) = Some sk" "sockets st1 = sockets st"
    and "\<And>c. sock_id (g c) = sock_id c" "\<And>c. rooms (g c) = rooms c"
  shows "connection (update_socket (sock_id sk) (\<lambda>c. g (socket_join r c)) st1) (sock_id sk) =
           Some (g (socket_join r sk))
         \<and> set (rooms (g (socket_join r sk))) = insert r (set (rooms sk))"
proof -
  have c1: "connection st1 (sock_id sk) = Some sk"
    using assms(1,2) by (simp add: connection_def)
  have "connection (update_socket (sock_id sk) (\<lambda>c. g (socket_join r c)) st1) (sock_id sk) =
           Some (g (socket_join r sk))"
    by (rule connection_update_socket[OF c1]) (simp add: assms(3) socket_join_def)
  then show ?thesis by (simp add: assms(4) socket_join_def)
qed

lemma filter_when_current:
  "filter (\<lambda>x. event_name (snd x) = n) (when_current c f) =
     when_current c (\<lambda>r. filter (\<lambda>x. event_name (snd x) = n) (f r))"
  by (simp add: when_current_def split: option.splits)

subsection \<open>Connection gateway\<close>

lemma authenticate_fails_iff:
  "(\<exists>err. authenticate jv us tok i = Inl err) \<longleftrightarrow>
      (\<exists>t. tok = Some t \<and> t \<noteq> [] \<and>
           (jv t = None \<or> jv t = Some (Decoded None) \<or>
            (\<exists>uid. jv t = Some (Decoded (Some uid)) \<and> (\<forall>u\<in>set us. user_id u \<noteq> uid))))"
proof (cases tok)
  case None
  then show ?thesis by (simp add: authenticate_def)
next
  case (Some t)
  show ?thesis
  proof (cases "t = []")
    case True
    with Some show ?thesis by (simp add: authenticate_def)
  next
    case False
    show ?thesis
    proof (cases "jv t")
      case None
      with Some False show ?thesis by (simp add: authenticate_def)
    next
      case (Some d)
      obtain ou where d: "d = Decoded ou" by (cases d)
      show ?thesis
      proof (cases ou)
        case None
        with \<open>tok = Some t\<close> False Some d show ?thesis by (simp add: authenticate_def)
      next
        case (Some uid)
        with \<open>tok = Some t\<close> False \<open>jv t = Some d\<close> d show ?thesis
          by (auto simp: authenticate_def find_None_iff split: option.splits
                dest: find_user_mem)
      qed
    qed
  qed
qed

lemma authenticate_anonymous:
  "\<not> truthy tok \<Longrightarrow>
     authenticate jv us tok i =
       Inr \<lparr>id_userId = ''anonymous_'' @ i, id_userAlias = None,
            id_userAvatarIndex = None, id_isAnonymous = True\<rparr>"
  by (auto simp: authenticate_def truthy_def split: option.splits)

lemma authenticate_valid:
  assumes "tok = Some t" "t \<noteq> []" "jv t = Some (Decoded (Some uid))"
    and "\<exists>u\<in>set us. user_id u = uid"
  shows "\<exists>u\<in>set us. user_id u = uid \<and>
           authenticate jv us tok i =
             Inr \<lparr>id_userId = uid, id_userAlias = Some (user_alias u),
                  id_userAvatarIndex = Some (user_avatarIndex u), id_isAnonymous = False\<rparr>"
proof -
  from assms(4) obtain u where u: "find (\<lambda>u. user_id u = uid) us = Some u"
    by (cases "find (\<lambda>u. user_id u = uid) us") (auto simp: find_None_iff)
  then have "u \<in> set us" "user_id u = uid" using find_user_mem by blast+
  moreover have "authenticate jv us tok i =
             Inr \<lparr>id_userId = uid, id_userAlias = Some (user_alias u),
                  id_userAvatarIndex = Some (user_avatarIndex u), id_isAnonymous = False\<rparr>"
    using assms(1-3) u \<open>user_id u = uid\<close> by (simp add: authenticate_def)
  ultimately show ?thesis by blast
qed

text \<open>
  Claim C9. The connection-time \<open>authenticate\<close> fails exactly when a credential is
  presented (a non-empty token) and is invalid: the token does not verify, its payload
  names no user, or no stored user has the id it names. Without a credential it never
  fails and gives the anonymous identity \<open>anonymous_<socket id>\<close>, which differs
  between connections with different socket ids. With a valid credential it gives the
  identity (user id, alias, avatar index) of a stored user with the id in the token.
\<close>

theorem authenticate_contract:
  "((\<exists>err. authenticate jv us tok i = Inl err) \<longleftrightarrow>
      (\<exists>t. tok = Some t \<and> t \<noteq> [] \<and>
           (jv t = None \<or> jv t = Some (Decoded None) \<or>
            (\<exists>uid. jv t = Some (Decoded (Some uid)) \<and> (\<forall>u\<in>set us. user_id u \<noteq> uid)))))
   \<and> (\<not> truthy tok \<longrightarrow>
        authenticate jv us tok i =
          Inr \<lparr>id_userId = ''anonymous_'' @ i, id_userAlias = None,
               id_userAvatarIndex = None, id_isAnonymous = True\<rparr>)
   \<and> (\<not> truthy tok \<and> \<not> truthy tok' \<and> authenticate jv us tok i = authenticate jv' us' tok' i'
        \<longrightarrow> i = i')
   \<and> (\<forall>t uid. tok = Some t \<and> t \<noteq> [] \<and> jv t = Some (Decoded (Some uid)) \<and>
          (\<exists>u\<in>set us. user_id u = uid) \<longrightarrow>
        (\<exists>u\<in>set us. user_id u = uid \<and>
           authenticate jv us tok i =
             Inr \<lparr>id_userId = uid, id_userAlias = Some (user_alias u),
                  id_userAvatarIndex = Some (user_avatarIndex u), id_isAnonymous = False\<rparr>))"
proof (intro conjI impI allI)
  show "(\<exists>err. authenticate jv us tok i = Inl err) \<longleftrightarrow>
      (\<exists>t. tok = Some t \<and> t \<noteq> [] \<and>
           (jv t = None \<or> jv t = Some (Decoded None) \<or>
            (\<exists>uid. jv t = Some (Decoded (Some uid)) \<and> (\<forall>u\<in>set us. user_id u \<noteq> uid))))"
    by (rule authenticate_fails_iff)
next
  assume "\<not> truthy tok"
  then show "authenticate jv us tok i =
          Inr \<lparr>id_userId = ''anonymous_'' @ i, id_userAlias = None,
               id_userAvatarIndex = None, id_isAnonymous = True\<rparr>"
    by (rule authenticate_anonymous)
next
  assume "\<not> truthy tok \<and> \<not> truthy tok' \<and> authenticate jv us tok i = authenticate jv' us' tok' i'"
  then show "i = i'"
    using authenticate_anonymous[of tok jv us i] authenticate_anonymous[of tok' jv' us' i']
    by simp
next
  fix t uid
  assume "tok = Some t \<and> t \<noteq> [] \<and> jv t = Some (Decoded (Some uid)) \<and>
          (\<exists>u\<in>set us. user_id u = uid)"
  then show "\<exists>u\<in>set us. user_id u = uid \<and>
           authenticate jv us tok i =
             Inr \<lparr>id_userId = uid, id_userAlias = Some (user_alias u),
                  id_userAvatarIndex = Some (user_avatarIndex u), id_isAnonymous = False\<rparr>"
    using authenticate_valid[of tok t jv uid us i] by blast
qed

theorem authenticate_contract_witness:
  "authenticate jwt_demo users_demo (Some ''good'') ''s1'' =
     Inr \<lparr>id_userId = ''u1'', id_userAlias = Some ''alice'',
          id_userAvatarIndex = Some 3, id_isAnonymous = False\<rparr>
   \<and> (\<exists>err. authenticate jwt_demo users_demo (Some ''stale'') ''s1'' = Inl err)
   \<and> (\<exists>err. authenticate jwt_demo users_demo (Some ''bad'') ''s1'' = Inl err)
   \<and> authenticate jwt_demo users_demo None ''s1'' =
       Inr \<lparr>id_userId = ''anonymous_s1'', id_userAlias = None,
            id_userAvatarIndex = None, id_isAnonymous = True\<rparr>"
  using authenticate_contract[of jwt_demo users_demo "Some ''good''" "''s1''" "None" jwt_demo users_demo "''s1''"]
    authenticate_contract[of jwt_demo users_demo "Some ''stale''" "''s1''" "None" jwt_demo users_demo "''s1''"]
    authenticate_contract[of jwt_demo users_demo "Some ''bad''" "''s1''" "None" jwt_demo users_demo "''s1''"]
    authenticate_contract[of jwt_demo users_demo "None" "''s1''" "None" jwt_demo users_demo "''s1''"]
  by (simp add: jwt_demo_def users_demo_def truthy_def)

subsection \<open>Read receipts\<close>

text \<open>
  Claim C10. What \<open>sanctuary_message_read\<close> does is independent of the \<open>hostToken\<close> of its
  payload: for any connection and any two tokens (present or absent, valid or not) the
  state is unchanged and the one event emitted is the \<open>sanctuary_message_status\<close> with the
  message id and status \<open>read\<close>, to the sanctuary room except the sender. No host
  verification takes place.
\<close>

theorem sanctuary_message_read_ignores_hostToken:
  "sanctuary_message_read e sk sanctuaryId messageId tok st =
     sanctuary_message_read e sk sanctuaryId messageId tok' st
   \<and> sanctuary_message_read e sk sanctuaryId messageId tok st =
       (st, [(ToRoomExcept (''sanctuary_'' @ sanctuaryId) (sock_id sk),
              sanctuary_message_status messageId ''read'' (now e))])"
  by (simp add: sanctuary_message_read_def)

subsection \<open>Moderation\<close>

text \<open>
  Claim C4, as the code has it. The handler looks for the target among the live
  connections by user id, whatever rooms they are in. A \<open>kick_participant\<close> whose
  target participant id belongs to no live connection is a no-op: the state is unchanged
  and no event is emitted, neither a \<open>kicked_from_room\<close> to a target nor a
  \<open>participant_kicked\<close> to the room, and nothing is sent to the acting connection. When a
  live connection has the id, one with that id is sent \<open>kicked_from_room\<close> and the audio
  room, the actor excepted, is sent \<open>participant_kicked\<close>.
\<close>

theorem kick_noop_iff_target_not_connected:
  "((\<forall>s\<in>set (sockets st). userId s \<noteq> participantId) \<longrightarrow>
      kick_participant e sk sessionId participantId st = (st, []))
   \<and> ((\<exists>s\<in>set (sockets st). userId s = participantId) \<longrightarrow>
      (\<exists>targetSocket\<in>set (sockets st). userId targetSocket = participantId \<and>
         snd (kick_participant e sk sessionId participantId st) =
           [(ToSocket (sock_id targetSocket), kicked_from_room sessionId (userId sk) (now e)),
            (ToRoomExcept (''audio_room_'' @ sessionId) (sock_id sk),
             participant_kicked participantId (userId sk) (now e))]))"
proof (intro conjI impI)
  assume "\<forall>s\<in>set (sockets st). userId s \<noteq> participantId"
  then show "kick_participant e sk sessionId participantId st = (st, [])"
    by (simp add: kick_participant_def find_None_iff[THEN iffD2])
next
  assume "\<exists>s\<in>set (sockets st). userId s = participantId"
  then obtain targetSocket where
    f: "find (\<lambda>s. userId s = participantId) (sockets st) = Some targetSocket"
    by (cases "find (\<lambda>s. userId s = participantId) (sockets st)") (auto simp: find_None_iff)
  then have "targetSocket \<in> set (sockets st)" "userId targetSocket = participantId"
    by (auto simp: find_Some_iff)
  moreover have "snd (kick_participant e sk sessionId participantId st) =
           [(ToSocket (sock_id targetSocket), kicked_from_room sessionId (userId sk) (now e)),
            (ToRoomExcept (''audio_room_'' @ sessionId) (sock_id sk),
             participant_kicked participantId (userId sk) (now e))]"
    using f by (simp add: kick_participant_def)
  ultimately show "\<exists>targetSocket\<in>set (sockets st). userId targetSocket = participantId \<and>
         snd (kick_participant e sk sessionId participantId st) =
           [(ToSocket (sock_id targetSocket), kicked_from_room sessionId (userId sk) (now e)),
            (ToRoomExcept (''audio_room_'' @ sessionId) (sock_id sk),
             participant_kicked participantId (userId sk) (now e))]"
    by blast
qed

theorem kick_noop_iff_target_not_connected_witness:
  "kick_participant env_demo alice ''room-1'' ''u7'' server_demo = (server_demo, [])
   \<and> snd (kick_participant env_demo alice ''room-1'' ''u1'' server_demo) =
       [(ToSocket ''s1'', kicked_from_room ''room-1'' ''u1'' 1000),
        (ToRoomExcept ''audio_room_room-1'' ''s1'', participant_kicked ''u1'' ''u1'' 1000)]"
proof -
  have h: "\<forall>s\<in>set (sockets server_demo). userId s \<noteq> ''u7''"
    by (simp add: server_demo_def alice_def guest_def)
  from kick_noop_iff_target_not_connected[of server_demo "''u7''" env_demo alice "''room-1''"] h
  have absent: "kick_participant env_demo alice ''room-1'' ''u7'' server_demo = (server_demo, [])"
    by blast
  have c: "\<exists>s\<in>set (sockets server_demo). userId s = ''u1''"
    by (simp add: server_demo_def alice_def)
  from kick_noop_iff_target_not_connected[of server_demo "''u1''" env_demo alice "''room-1''"] c
  obtain targetSocket where t: "targetSocket \<in> set (sockets server_demo)"
    "userId targetSocket = ''u1''"
    "snd (kick_participant env_demo alice ''room-1'' ''u1'' server_demo) =
       [(ToSocket (sock_id targetSocket), kicked_from_room ''room-1'' (userId alice) (now env_demo)),
        (ToRoomExcept (''audio_room_'' @ ''room-1'') (sock_id alice),
         participant_kicked ''u1'' (userId alice) (now env_demo))]"
    by blast
  from t(1,2) have "targetSocket = alice"
    by (auto simp: server_demo_def alice_def guest_def)
  with t(3) have present: "snd (kick_participant env_demo alice ''room-1'' ''u1'' server_demo) =
       [(ToSocket ''s1'', kicked_from_room ''room-1'' ''u1'' 1000),
        (ToRoomExcept ''audio_room_room-1'' ''s1'', participant_kicked ''u1'' ''u1'' 1000)]"
    by (simp add: alice_def env_demo_def)
  from absent present show ?thesis by blast
qed

text \<open>
  Claim C4 as stated fails: the guest is connected and has joined no chat room, sanctuary,
  host channel or audio room (its only room is the one of its own socket id). Alice
  kicks it from \<open>room-1\<close>: the guest is sent \<open>kicked_from_room\<close> and the audio room is sent
  \<open>participant_kicked\<close>.
\<close>

theorem kick_connected_target_in_no_room_counterexample:
  "connection server_demo ''s2'' = Some guest
   \<and> rooms guest = [''s2'']
   \<and> members server_demo ''audio_room_room-1'' = []
   \<and> snd (kick_participant env_demo alice ''room-1'' ''anonymous_s2'' server_demo) =
       [(ToSocket ''s2'', kicked_from_room ''room-1'' ''u1'' 1000),
        (ToRoomExcept ''audio_room_room-1'' ''s1'',
         participant_kicked ''anonymous_s2'' ''u1'' 1000)]"
  by (simp add: kick_participant_def connection_def members_def server_demo_def alice_def
      guest_def env_demo_def)

subsection \<open>Submission persistence bridge\<close>

text \<open>
  Claim C6. A \<open>sanctuary_message\<close> to a sanctuary that is absent, inactive or whose
  \<open>expiresAt\<close> is not after the current time gives the sender one \<open>sanctuary_error\<close>
  with the reason "Sanctuary session not found or expired"; nothing is broadcast to the
  sanctuary room or the host room, and the store, with every submission sequence, is
  unchanged.
\<close>

theorem sanctuary_message_expired_rejected:
  "\<forall>s\<in>set (sanctuarySessions st).
      ss_id s = sanctuaryId \<longrightarrow> \<not> ss_isActive s \<or> ss_expiresAt s \<le> now e \<Longrightarrow>
   sanctuary_message e sk sanctuaryId content type a st =
     (st, [(ToSocket (sock_id sk), sanctuary_error ''Sanctuary session not found or expired'')])"
proof -
  assume h: "\<forall>s\<in>set (sanctuarySessions st).
      ss_id s = sanctuaryId \<longrightarrow> \<not> ss_isActive s \<or> ss_expiresAt s \<le> now e"
  have "findOne (sanctuary_query (now e) sanctuaryId) (sanctuarySessions st) = None"
    unfolding findOne_None_iff sanctuary_query_def using h by auto
  then show ?thesis by (simp add: sanctuary_message_def)
qed

theorem sanctuary_message_expired_rejected_witness:
  "sanctuary_message env_demo guest ''sid-1'' ''hello'' (Some ''text'') None server_demo =
     (server_demo, [(ToSocket ''s2'', sanctuary_error ''Sanctuary session not found or expired'')])"
proof -
  have h: "\<forall>s\<in>set (sanctuarySessions server_demo).
      ss_id s = ''sid-1'' \<longrightarrow> \<not> ss_isActive s \<or> ss_expiresAt s \<le> now env_demo"
    by (simp add: server_demo_def sanctuary1_def sanctuary2_def sanctuary3_def env_demo_def)
  show ?thesis
    using sanctuary_message_expired_rejected[OF h, of guest "''hello''" "Some ''text''" None]
    by (simp add: guest_def)
qed

text \<open>
  Claim C3. In \<open>sanctuary_message\<close> the broadcast to the public sanctuary room and the
  notification of the host room, with the new submission count, happen only together
  with the durable append. If the store refuses the write, the store is unchanged,
  nothing is broadcast to either room and the author alone receives a \<open>sanctuary_error\<close>.
  Every run ends in one of two ways: the state is unchanged and the only event is a
  \<open>sanctuary_error\<close> to the author; or the write was accepted, the submission is appended
  to the sequence of an active, non-expired sanctuary with that id, and the two room
  events are emitted, the count being the length of the new sequence.
\<close>

theorem sanctuary_message_broadcast_after_persist:
  assumes "sanctuary_message e sk sanctuaryId content type a st = (st', evs)"
  shows "(sanctuarySession_save_rejects e \<noteq> None \<longrightarrow>
            st' = st \<and> (\<exists>reason. evs = [(ToSocket (sock_id sk), sanctuary_error reason)]))
       \<and> ((st' = st \<and> (\<exists>reason. evs = [(ToSocket (sock_id sk), sanctuary_error reason)]))
          \<or> (sanctuarySession_save_rejects e = None \<and>
              (\<exists>i s. i < length (sanctuarySessions st) \<and> sanctuarySessions st ! i = s \<and>
                 sanctuary_query (now e) sanctuaryId s \<and>
                 st' = st\<lparr>sanctuarySessions := (sanctuarySessions st)
                          [i := s\<lparr>ss_submissions := ss_submissions s @
                                   [new_submission e sk content type a]\<rparr>]\<rparr> \<and>
                 evs = [(ToRoom (''sanctuary_'' @ sanctuaryId),
                         sanctuary_new_message (new_submission e sk content type a)),
                        (ToRoom (''sanctuary_host_'' @ sanctuaryId),
                         sanctuary_new_submission (new_submission e sk content type a)
                           (Suc (length (ss_submissions s))))])))"
proof (cases "findOne (sanctuary_query (now e) sanctuaryId) (sanctuarySessions st)")
  case None
  with assms show ?thesis by (auto simp: sanctuary_message_def)
next
  case (Some p)
  obtain i s where p: "p = (i, s)" by (cases p)
  from Some p have found: "i < length (sanctuarySessions st)" "sanctuarySessions st ! i = s"
    "sanctuary_query (now e) sanctuaryId s"
    using findOne_SomeD by fastforce+
  show ?thesis
  proof (cases "sanctuarySession_save_rejects e")
    case None
    with assms Some p found show ?thesis
      by (auto simp: sanctuary_message_def Let_def)
  next
    case (Some msg)
    with assms \<open>findOne (sanctuary_query (now e) sanctuaryId) (sanctuarySessions st) = Some p\<close> p
    show ?thesis by (auto simp: sanctuary_message_def Let_def)
  qed
qed

theorem sanctuary_message_broadcast_after_persist_witness:
  "sanctuary_message env_store_down guest ''sid-3'' ''hello'' None None server_demo =
     (server_demo, [(ToSocket ''s2'', sanctuary_error ''Failed to send message'')])
   \<and> snd (sanctuary_message env_demo guest ''sid-3'' ''hello'' None None server_demo) =
     [(ToRoom ''sanctuary_sid-3'',
       sanctuary_new_message
         \<lparr>sub_id = ''sanctuary_msg_1000_k3x9q0z1a'', sub_participantId = ''anonymous_s2'',
          sub_participantAlias = ''Anonymous'', sub_content = ''hello'', sub_type = ''text'',
          sub_timestamp = 1000\<rparr>),
      (ToRoom ''sanctuary_host_sid-3'',
       sanctuary_new_submission
         \<lparr>sub_id = ''sanctuary_msg_1000_k3x9q0z1a'', sub_participantId = ''anonymous_s2'',
          sub_participantAlias = ''Anonymous'', sub_content = ''hello'', sub_type = ''text'',
          sub_timestamp = 1000\<rparr> 3)]"
proof -
  obtain st' evs where r:
    "sanctuary_message env_store_down guest ''sid-3'' ''hello'' None None server_demo = (st', evs)"
    by (cases "sanctuary_message env_store_down guest ''sid-3'' ''hello'' None None server_demo")
  have down: "sanctuarySession_save_rejects env_store_down \<noteq> None"
    by (simp add: env_store_down_def)
  from sanctuary_message_broadcast_after_persist[OF r] down
  have "st' = server_demo" "\<exists>reason. evs = [(ToSocket (sock_id guest), sanctuary_error reason)]"
    by blast+
  then obtain reason where evs: "evs = [(ToSocket (sock_id guest), sanctuary_error reason)]"
    by blast
  have "snd (sanctuary_message env_store_down guest ''sid-3'' ''hello'' None None server_demo) =
     [(ToSocket ''s2'', sanctuary_error ''Failed to send message'')]"
    by (simp add: sanctuary_message_def env_store_down_def env_demo_def server_demo_def
        sanctuary1_def sanctuary2_def sanctuary3_def sanctuary_query_def guest_def Let_def)
  with r evs \<open>st' = server_demo\<close> have down_case:
    "sanctuary_message env_store_down guest ''sid-3'' ''hello'' None None server_demo =
     (server_demo, [(ToSocket ''s2'', sanctuary_error ''Failed to send message'')])" by simp
  have d: "dec 1000 = ''1000''" by code_simp
  have up_case: "snd (sanctuary_message env_demo guest ''sid-3'' ''hello'' None None server_demo) =
     [(ToRoom ''sanctuary_sid-3'',
       sanctuary_new_message
         \<lparr>sub_id = ''sanctuary_msg_1000_k3x9q0z1a'', sub_participantId = ''anonymous_s2'',
          sub_participantAlias = ''Anonymous'', sub_content = ''hello'', sub_type = ''text'',
          sub_timestamp = 1000\<rparr>),
      (ToRoom ''sanctuary_host_sid-3'',
       sanctuary_new_submission
         \<lparr>sub_id = ''sanctuary_msg_1000_k3x9q0z1a'', sub_participantId = ''anonymous_s2'',
          sub_participantAlias = ''Anonymous'', sub_content = ''hello'', sub_type = ''text'',
          sub_timestamp = 1000\<rparr> 3)]"
    by (simp add: sanctuary_message_def new_submission_def env_demo_def server_demo_def
        sanctuary1_def sanctuary2_def sanctuary3_def sanctuary_query_def guest_def Let_def
        or_default_def js_or_def truthy_def d del: dec.simps)
  from down_case up_case show ?thesis by blast
qed

subsection \<open>Host session authority\<close>

text \<open>
  Claim C2. Let sanctuary \<open>S\<close> be stored, active and non-expired, its id identifying it
  in the store, and let an active, non-expired HostSession for \<open>S\<close> carry the token \<open>t\<close>.
  Then, the store accepting the last-access write, \<open>join_sanctuary_host\<close> of a live
  connection with \<open>t\<close> succeeds: the connection is in the room \<open>sanctuary_host_<id>\<close>
  afterwards, and the one event is a \<open>sanctuary_host_joined\<close> to the caller whose
  \<open>submissionsCount\<close> is the length of \<open>S\<close>'s submissions, whose \<open>lastActivity\<close> is the
  timestamp of the last submission, or \<open>S\<close>'s creation time when there is none, and which
  carries \<open>t\<close> and \<open>S\<close>'s topic, description, emoji and expiry. (A token is presented
  when it is a non-empty string.)
\<close>

theorem join_sanctuary_host_with_token:
  assumes "t \<noteq> []"
    and "h \<in> set (hostSessions st)" "hs_sanctuaryId h = sanctuaryId" "hs_hostToken h = t"
      "hs_isActive h" "now e < hs_expiresAt h"
    and "S \<in> set (sanctuarySessions st)" "ss_id S = sanctuaryId" "ss_isActive S"
      "now e < ss_expiresAt S"
    and "distinct (map ss_id (sanctuarySessions st))"
    and "hostSession_updateAccess_rejects e = None"
    and "connection st (sock_id sk) = Some sk"
  shows "\<exists>st' sk'.
           join_sanctuary_host e sk sanctuaryId (Some t) st =
             (st', [(ToSocket (sock_id sk),
                     sanctuary_host_joined sanctuaryId
                       (length (ss_submissions S))
                       (if ss_submissions S = [] then ss_createdAt S
                        else sub_timestamp (last (ss_submissions S)))
                       t
                       \<lparr>si_topic = ss_topic S, si_description = ss_description S,
                        si_emoji = ss_emoji S, si_expiresAt = ss_expiresAt S\<rparr>)])
         \<and> connection st' (sock_id sk) = Some sk'
         \<and> ''sanctuary_host_'' @ sanctuaryId \<in> set (rooms sk')
         \<and> currentSanctuaryHost sk' = Some sanctuaryId
         \<and> sanctuarySessions st' = sanctuarySessions st"
proof -
  have "host_query (now e) sanctuaryId t h" using assms(3-6) by (simp add: host_query_def)
  with assms(2) obtain i h' where
    f: "findOne (host_query (now e) sanctuaryId t) (hostSessions st) = Some (i, h')"
    by (cases "findOne (host_query (now e) sanctuaryId t) (hostSessions st)")
       (auto simp: findOne_None_iff)
  then have tok: "hs_hostToken h' = t" using findOne_SomeD by (fastforce simp: host_query_def)
  have "sanctuary_query (now e) sanctuaryId S" using assms(8-10) by (simp add: sanctuary_query_def)
  with assms(7,8,11) obtain j where
    g: "findOne (sanctuary_query (now e) sanctuaryId) (sanctuarySessions st) = Some (j, S)"
    using findOne_the_sanctuary[of "sanctuarySessions st" S "sanctuary_query (now e) sanctuaryId"]
    by (auto simp: sanctuary_query_def)
  let ?f = "\<lambda>c. (socket_join (''sanctuary_host_'' @ sanctuaryId) c)
                     \<lparr>currentSanctuaryHost := Some sanctuaryId, hostToken := Some (hs_hostToken h')\<rparr>"
  let ?st1 = "st\<lparr>hostSessions := (hostSessions st)[i := updateAccess (now e) h']\<rparr>"
  have enter: "host_enter e sk sanctuaryId i h' None st =
      (update_socket (sock_id sk) ?f ?st1, Inr (host_snapshot sanctuaryId (updateAccess (now e) h') S))"
    using host_enter_found[OF assms(12), where loaded = None and S = S and st = st] g by blast
  have tried: "join_sanctuary_host_try e sk sanctuaryId (Some t) st =
      (update_socket (sock_id sk) ?f ?st1, Inr (host_snapshot sanctuaryId (updateAccess (now e) h') S))"
    using assms(1) f enter by (simp add: join_sanctuary_host_try_def)
  have c1: "connection ?st1 (sock_id sk) = Some sk"
    using assms(13) by (simp add: connection_def)
  have conn: "connection (update_socket (sock_id sk) ?f ?st1) (sock_id sk) = Some (?f sk)"
    by (rule connection_update_socket[OF c1]) (simp add: socket_join_def)
  have snap: "host_snapshot sanctuaryId (updateAccess (now e) h') S =
      sanctuary_host_joined sanctuaryId
                       (length (ss_submissions S))
                       (if ss_submissions S = [] then ss_createdAt S
                        else sub_timestamp (last (ss_submissions S)))
                       t
                       \<lparr>si_topic = ss_topic S, si_description = ss_description S,
                        si_emoji = ss_emoji S, si_expiresAt = ss_expiresAt S\<rparr>"
    using tok by (simp add: host_snapshot_def updateAccess_def)
  show ?thesis
    using tried conn snap
    by (simp add: join_sanctuary_host_def socket_join_def update_socket_def)
qed

theorem join_sanctuary_host_with_token_witness:
  "snd (join_sanctuary_host env_demo guest ''sid-3'' (Some ''tok-3'') server_demo) =
     [(ToSocket ''s2'',
       sanctuary_host_joined ''sid-3'' 2 700 ''tok-3''
         \<lparr>si_topic = ''busy'', si_description = None, si_emoji = Some ''leaf'',
          si_expiresAt = 3000\<rparr>)]"
proof -
  have 1: "''tok-3'' \<noteq> []" by simp
  have 2: "host3 \<in> set (hostSessions server_demo)" by (simp add: server_demo_def)
  have 3: "hs_sanctuaryId host3 = ''sid-3''" "hs_hostToken host3 = ''tok-3''" "hs_isActive host3"
    "now env_demo < hs_expiresAt host3" by (simp_all add: host3_def env_demo_def)
  have 4: "sanctuary3 \<in> set (sanctuarySessions server_demo)" by (simp add: server_demo_def)
  have 5: "ss_id sanctuary3 = ''sid-3''" "ss_isActive sanctuary3"
    "now env_demo < ss_expiresAt sanctuary3" by (simp_all add: sanctuary3_def env_demo_def)
  have 6: "distinct (map ss_id (sanctuarySessions server_demo))"
    by (simp add: server_demo_def sanctuary1_def sanctuary2_def sanctuary3_def)
  have 7: "hostSession_updateAccess_rejects env_demo = None" by (simp add: env_demo_def)
  have 8: "connection server_demo (sock_id guest) = Some guest"
    by (simp add: connection_def server_demo_def alice_def guest_def)
  from join_sanctuary_host_with_token[OF 1 2 3 4 5 6 7 8]
  show ?thesis by (auto simp: sanctuary3_def sub1_def sub2_def guest_def)
qed

text \<open>
  Claim C7. Let the caller be an authenticated live connection whose user id is the
  recorded owner of the stored, active, non-expired sanctuary \<open>S\<close>, and let it present
  no token. Then, the store accepting the two writes, \<open>join_sanctuary_host\<close> succeeds:
  a new HostSession is appended to the store, bound to the owner, active, with the
  freshly generated token and \<open>S\<close>'s expiry; the connection is in the host room; and the
  one event is a \<open>sanctuary_host_joined\<close> to the caller carrying that token and the
  number of \<open>S\<close>'s submissions, which is 0 for a sanctuary without submissions.
\<close>

theorem join_sanctuary_host_owner_mints:
  assumes "\<not> truthy tok"
    and "\<not> isAnonymous sk"
    and "S \<in> set (sanctuarySessions st)" "ss_id S = sanctuaryId"
      "ss_hostId S = Some (userId sk)" "ss_isActive S" "now e < ss_expiresAt S"
    and "distinct (map ss_id (sanctuarySessions st))"
    and "hostSession_save_rejects e = None"
    and "hostSession_updateAccess_rejects e = None"
    and "connection st (sock_id sk) = Some sk"
  shows "\<exists>st' sk'.
           join_sanctuary_host e sk sanctuaryId tok st =
             (st', [(ToSocket (sock_id sk),
                     sanctuary_host_joined sanctuaryId
                       (length (ss_submissions S))
                       (if ss_submissions S = [] then ss_createdAt S
                        else sub_timestamp (last (ss_submissions S)))
                       (nanoid32 e)
                       \<lparr>si_topic = ss_topic S, si_description = ss_description S,
                        si_emoji = ss_emoji S, si_expiresAt = ss_expiresAt S\<rparr>)])
         \<and> hostSessions st' = hostSessions st @
               [\<lparr>hs_sanctuaryId = sanctuaryId, hs_hostToken = nanoid32 e,
                 hs_hostId = Some (userId sk), hs_hostIp = address sk,
                 hs_userAgent = userAgent sk, hs_expiresAt = ss_expiresAt S,
                 hs_isActive = True, hs_lastAccessed = now e\<rparr>]
         \<and> connection st' (sock_id sk) = Some sk'
         \<and> ''sanctuary_host_'' @ sanctuaryId \<in> set (rooms sk')
         \<and> currentSanctuaryHost sk' = Some sanctuaryId
         \<and> hostToken sk' = Some (nanoid32 e)"
proof -
  have byToken: "(case tok of None \<Rightarrow> None
             | Some t \<Rightarrow> if t = [] then None
                 else findOne (host_query (now e) sanctuaryId t) (hostSessions st)) = None"
    using assms(1) by (auto simp: truthy_def split: option.splits)
  have fresh: "or_default tok (nanoid32 e) = nanoid32 e"
    using assms(1) by (auto simp: truthy_def or_default_def split: option.splits)
  have "owner_query (now e) sanctuaryId (userId sk) S"
    using assms(4-7) by (simp add: owner_query_def)
  with assms(3,4,8) obtain j where
    g: "findOne (owner_query (now e) sanctuaryId (userId sk)) (sanctuarySessions st) = Some (j, S)"
    using findOne_the_sanctuary[of "sanctuarySessions st" S
        "owner_query (now e) sanctuaryId (userId sk)"]
    by (auto simp: owner_query_def)
  let ?h = "mint e sk sanctuaryId tok S"
  let ?st0 = "st\<lparr>hostSessions := hostSessions st @ [?h]\<rparr>"
  let ?f = "\<lambda>c. (socket_join (''sanctuary_host_'' @ sanctuaryId) c)
                     \<lparr>currentSanctuaryHost := Some sanctuaryId, hostToken := Some (hs_hostToken ?h)\<rparr>"
  let ?st1 = "?st0\<lparr>hostSessions := (hostSessions ?st0)[length (hostSessions st) := updateAccess (now e) ?h]\<rparr>"
  have enter: "host_enter e sk sanctuaryId (length (hostSessions st)) ?h (Some S) ?st0 =
      (update_socket (sock_id sk) ?f ?st1, Inr (host_snapshot sanctuaryId (updateAccess (now e) ?h) S))"
    using host_enter_found[OF assms(10), where loaded = "Some S" and S = S]
    by blast
  have tried: "join_sanctuary_host_try e sk sanctuaryId tok st =
      (update_socket (sock_id sk) ?f ?st1, Inr (host_snapshot sanctuaryId (updateAccess (now e) ?h) S))"
    unfolding join_sanctuary_host_try_def Let_def byToken
    using assms(2,9) g enter by simp
  have c1: "connection ?st1 (sock_id sk) = Some sk"
    using assms(11) by (simp add: connection_def)
  have conn: "connection (update_socket (sock_id sk) ?f ?st1) (sock_id sk) = Some (?f sk)"
    by (rule connection_update_socket[OF c1]) (simp add: socket_join_def)
  have minted: "updateAccess (now e) ?h =
      \<lparr>hs_sanctuaryId = sanctuaryId, hs_hostToken = nanoid32 e,
                 hs_hostId = Some (userId sk), hs_hostIp = address sk,
                 hs_userAgent = userAgent sk, hs_expiresAt = ss_expiresAt S,
                 hs_isActive = True, hs_lastAccessed = now e\<rparr>"
    using fresh by (simp add: mint_def updateAccess_def)
  have tokh: "hs_hostToken ?h = nanoid32 e" using fresh by (simp add: mint_def)
  have snap: "host_snapshot sanctuaryId (updateAccess (now e) ?h) S =
      sanctuary_host_joined sanctuaryId
                       (length (ss_submissions S))
                       (if ss_submissions S = [] then ss_createdAt S
                        else sub_timestamp (last (ss_submissions S)))
                       (nanoid32 e)
                       \<lparr>si_topic = ss_topic S, si_description = ss_description S,
                        si_emoji = ss_emoji S, si_expiresAt = ss_expiresAt S\<rparr>"
    unfolding minted by (simp add: host_snapshot_def)
  have store: "hostSessions (update_socket (sock_id sk) ?f ?st1) =
      hostSessions st @ [updateAccess (now e) ?h]"
    by (simp add: update_socket_def)
  show ?thesis
    using tried conn snap store minted tokh
    by (simp add: join_sanctuary_host_def socket_join_def)
qed

theorem join_sanctuary_host_owner_mints_witness:
  "snd (join_sanctuary_host env_demo alice ''sid-2'' None server_demo) =
     [(ToSocket ''s1'',
       sanctuary_host_joined ''sid-2'' 0 500 ''V1StGXR8_Z5jdHi6B-myT0123456789a''
         \<lparr>si_topic = ''fresh'', si_description = Some ''new inbox'', si_emoji = None,
          si_expiresAt = 2000\<rparr>)]"
proof -
  have 1: "\<not> truthy None" by (simp add: truthy_def)
  have 2: "\<not> isAnonymous alice" by (simp add: alice_def)
  have 3: "sanctuary2 \<in> set (sanctuarySessions server_demo)" by (simp add: server_demo_def)
  have 4: "ss_id sanctuary2 = ''sid-2''" "ss_hostId sanctuary2 = Some (userId alice)"
    "ss_isActive sanctuary2" "now env_demo < ss_expiresAt sanctuary2"
    by (simp_all add: sanctuary2_def env_demo_def alice_def)
  have 5: "distinct (map ss_id (sanctuarySessions server_demo))"
    by (simp add: server_demo_def sanctuary1_def sanctuary2_def sanctuary3_def)
  have 6: "hostSession_save_rejects env_demo = None"
    "hostSession_updateAccess_rejects env_demo = None" by (simp_all add: env_demo_def)
  have 7: "connection server_demo (sock_id alice) = Some alice"
    by (simp add: connection_def server_demo_def alice_def guest_def)
  from join_sanctuary_host_owner_mints[OF 1 2 3 4 5 6 7]
  show ?thesis by (auto simp: sanctuary2_def alice_def env_demo_def)
qed

text \<open>
  Without a word on what the store accepts: when every stored HostSession with the
  presented token for the sanctuary has \<open>expiresAt\<close> not after the current time, and the
  caller is anonymous or is not the recorded owner of an active, non-expired sanctuary
  with that id, the join changes nothing and is refused with the reason
  "Host authorization failed".
\<close>

lemma expired_token_rejected_for_non_owner:
  assumes "\<forall>h\<in>set (hostSessions st).
             hs_sanctuaryId h = sanctuaryId \<and> hs_hostToken h = t \<longrightarrow> hs_expiresAt h \<le> now e"
    and "isAnonymous sk \<or>
         (\<forall>s\<in>set (sanctuarySessions st).
             ss_id s = sanctuaryId \<and> ss_hostId s = Some (userId sk) \<longrightarrow>
               \<not> ss_isActive s \<or> ss_expiresAt s \<le> now e)"
  shows "join_sanctuary_host e sk sanctuaryId (Some t) st =
           (st, [(ToSocket (sock_id sk),
                  sanctuary_host_auth_failed sanctuaryId
                    ''Not authorized as host for this sanctuary''
                    ''Host authorization failed'')])"
proof -
  have byToken: "findOne (host_query (now e) sanctuaryId t) (hostSessions st) = None"
    unfolding findOne_None_iff host_query_def using assms(1) by auto
  have owner: "\<not> isAnonymous sk \<Longrightarrow>
      findOne (owner_query (now e) sanctuaryId (userId sk)) (sanctuarySessions st) = None"
    unfolding findOne_None_iff owner_query_def using assms(2) by auto
  have "join_sanctuary_host_try e sk sanctuaryId (Some t) st = (st, Inl ''Host authorization failed'')"
    using byToken owner by (simp add: join_sanctuary_host_try_def)
  then show ?thesis by (simp add: join_sanctuary_host_def)
qed

text \<open>
  The owner branch saves a new HostSession under the presented token, so for the
  authenticated owner the outcome is the store's: were the store to take a second
  HostSession under the token of the expired one, Alice, owner of the live \<open>sid-2\<close>, would
  be joined with the expired \<open>tok-old\<close>.
\<close>

lemma owner_joined_if_store_takes_stored_token:
  "hostSession_save_rejects env_demo = None
   \<and> snd (join_sanctuary_host env_demo alice ''sid-2'' (Some ''tok-old'') server_demo) =
       [(ToSocket ''s1'',
         sanctuary_host_joined ''sid-2'' 0 500 ''tok-old''
           \<lparr>si_topic = ''fresh'', si_description = Some ''new inbox'', si_emoji = None,
            si_expiresAt = 2000\<rparr>)]"
  by (simp add: join_sanctuary_host_def join_sanctuary_host_try_def host_enter_def
      host_snapshot_def mint_def updateAccess_def or_default_def host_query_def owner_query_def
      server_demo_def host3_def host2_expired_def sanctuary1_def sanctuary2_def sanctuary3_def
      env_demo_def alice_def update_socket_def socket_join_def Let_def)



subsection \<open>Room membership\<close>

text \<open>
  Claim C5, as the code has it. For a live connection, each of \<open>join_chat\<close>,
  \<open>join_sanctuary\<close>, \<open>join_audio_room\<close>, and \<open>join_sanctuary_host\<close> when it answers
  \<open>sanctuary_host_joined\<close>, sets the connection's current room of that kind to the room
  joined, replacing the one recorded before, and adds the room to the connection's
  rooms. No room is left: the rooms afterwards are the rooms before and the new one.
\<close>

theorem join_sets_current_room_and_keeps_memberships:
  assumes "connection st (sock_id sk) = Some sk"
  shows "(\<exists>sk'. connection (fst (join_chat e sk B userType st)) (sock_id sk) = Some sk' \<and>
            currentChatSession sk' = Some B \<and>
            set (rooms sk') = insert (''chat_'' @ B) (set (rooms sk)))
       \<and> (\<exists>sk'. connection (fst (join_sanctuary e sk B p_alias p_anon st)) (sock_id sk) = Some sk' \<and>
            currentSanctuary sk' = Some B \<and>
            set (rooms sk') = insert (''sanctuary_'' @ B) (set (rooms sk)))
       \<and> (\<exists>sk'. connection (fst (join_audio_room e sk B p_alias p_host p_mod st)) (sock_id sk) = Some sk' \<and>
            currentAudioRoom sk' = Some B \<and>
            set (rooms sk') = insert (''audio_room_'' @ B) (set (rooms sk)))
       \<and> (snd (join_sanctuary_host e sk B tok st) =
             [(ToSocket (sock_id sk), sanctuary_host_joined a b c d f)] \<longrightarrow>
           (\<exists>sk'. connection (fst (join_sanctuary_host e sk B tok st)) (sock_id sk) = Some sk' \<and>
              currentSanctuaryHost sk' = Some B \<and>
              set (rooms sk') = insert (''sanctuary_host_'' @ B) (set (rooms sk))))"
proof (intro conjI impI)
  show "\<exists>sk'. connection (fst (join_chat e sk B userType st)) (sock_id sk) = Some sk' \<and>
            currentChatSession sk' = Some B \<and>
            set (rooms sk') = insert (''chat_'' @ B) (set (rooms sk))"
    using connection_after_join[OF assms refl, of "\<lambda>c. c\<lparr>currentChatSession := Some B\<rparr>" "''chat_'' @ B"]
    by (simp add: join_chat_def)
next
  show "\<exists>sk'. connection (fst (join_sanctuary e sk B p_alias p_anon st)) (sock_id sk) = Some sk' \<and>
            currentSanctuary sk' = Some B \<and>
            set (rooms sk') = insert (''sanctuary_'' @ B) (set (rooms sk))"
    using connection_after_join[OF assms refl, of "\<lambda>c. c\<lparr>currentSanctuary := Some B\<rparr>" "''sanctuary_'' @ B"]
    by (simp add: join_sanctuary_def)
next
  show "\<exists>sk'. connection (fst (join_audio_room e sk B p_alias p_host p_mod st)) (sock_id sk) = Some sk' \<and>
            currentAudioRoom sk' = Some B \<and>
            set (rooms sk') = insert (''audio_room_'' @ B) (set (rooms sk))"
    using connection_after_join[OF assms refl, of "\<lambda>c. c\<lparr>currentAudioRoom := Some B\<rparr>" "''audio_room_'' @ B"]
    by (simp add: join_audio_room_def)
next
  assume j: "snd (join_sanctuary_host e sk B tok st) =
             [(ToSocket (sock_id sk), sanctuary_host_joined a b c d f)]"
  from join_sanctuary_host_joined_try[OF j] obtain p where
    "join_sanctuary_host_try e sk B tok st = (fst (join_sanctuary_host e sk B tok st), Inr p)"
    by blast
  from join_sanctuary_host_try_joined[OF this] obtain st1 t where
    st1: "sockets st1 = sockets st"
    and st': "fst (join_sanctuary_host e sk B tok st) =
       update_socket (sock_id sk)
         (\<lambda>c. (socket_join (''sanctuary_host_'' @ B) c)
                \<lparr>currentSanctuaryHost := Some B, hostToken := Some t\<rparr>) st1"
    by blast
  show "\<exists>sk'. connection (fst (join_sanctuary_host e sk B tok st)) (sock_id sk) = Some sk' \<and>
              currentSanctuaryHost sk' = Some B \<and>
              set (rooms sk') = insert (''sanctuary_host_'' @ B) (set (rooms sk))"
    unfolding st'
    using connection_after_join[OF assms st1,
        of "\<lambda>c. c\<lparr>currentSanctuaryHost := Some B, hostToken := Some t\<rparr>" "''sanctuary_host_'' @ B"]
    by simp
qed

theorem join_sets_current_room_and_keeps_memberships_witness:
  "(\<exists>sk'. connection after_two_chat_joins ''s2'' = Some sk' \<and>
          currentChatSession sk' = Some ''B'' \<and>
          set (rooms sk') = {''chat_B'', ''chat_A'', ''s2''})
   \<and> (\<exists>sk'. connection after_host_join ''s2'' = Some sk' \<and>
          currentSanctuaryHost sk' = Some ''sid-3'' \<and>
          set (rooms sk') = {''sanctuary_host_sid-3'', ''s2''})"
proof -
  let ?g1 = "guest\<lparr>rooms := [''chat_A'', ''s2''], currentChatSession := Some ''A''\<rparr>"
  have c: "connection after_chat_join_A (sock_id ?g1) = Some ?g1"
    by (simp add: connection_def after_chat_join_A_sockets alice_def guest_def)
  then have "connection after_chat_join_A ''s2'' = Some ?g1" by (simp add: guest_def)
  then have eq: "after_two_chat_joins = fst (join_chat env_demo ?g1 ''B'' None after_chat_join_A)"
    by (simp add: after_two_chat_joins_def handle_def)
  from join_sets_current_room_and_keeps_memberships[OF c, of env_demo "''B''" None]
  have "\<exists>sk'. connection (fst (join_chat env_demo ?g1 ''B'' None after_chat_join_A)) (sock_id ?g1) = Some sk' \<and>
    currentChatSession sk' = Some ''B'' \<and>
    set (rooms sk') = insert (''chat_'' @ ''B'') (set (rooms ?g1))"
    by blast
  then have chat: "\<exists>sk'. connection after_two_chat_joins ''s2'' = Some sk' \<and>
          currentChatSession sk' = Some ''B'' \<and>
          set (rooms sk') = {''chat_B'', ''chat_A'', ''s2''}"
    unfolding eq[symmetric] by (simp add: guest_def)
  have g: "connection server_demo (sock_id guest) = Some guest"
    by (simp add: connection_def server_demo_def alice_def guest_def)
  then have "connection server_demo ''s2'' = Some guest" by (simp add: guest_def)
  then have eqh: "after_host_join =
      fst (join_sanctuary_host env_demo guest ''sid-3'' (Some ''tok-3'') server_demo)"
    by (simp add: after_host_join_def handle_def)
  from join_sets_current_room_and_keeps_memberships[OF g, of env_demo "''sid-3''" _ _ _ _ _
      "Some ''tok-3''"] guest_host_join_events
  have "\<exists>sk'. connection (fst (join_sanctuary_host env_demo guest ''sid-3'' (Some ''tok-3'')
            server_demo)) (sock_id guest) = Some sk' \<and>
          currentSanctuaryHost sk' = Some ''sid-3'' \<and>
          set (rooms sk') = insert (''sanctuary_host_'' @ ''sid-3'') (set (rooms guest))"
    by blast
  then have host: "\<exists>sk'. connection after_host_join ''s2'' = Some sk' \<and>
          currentSanctuaryHost sk' = Some ''sid-3'' \<and>
          set (rooms sk') = {''sanctuary_host_sid-3'', ''s2''}"
    unfolding eqh[symmetric] by (simp add: guest_def)
  from chat host show ?thesis by blast
qed

text \<open>
  Claim C5 as stated fails: after the guest has joined chat room \<open>A\<close> and then chat room
  \<open>B\<close>, it is a member of both, and a broadcast to \<open>chat_A\<close>, from the server or from
  another connection, is still delivered to it.
\<close>

theorem prior_chat_room_kept_counterexample:
  "members after_two_chat_joins ''chat_A'' = [''s2'']
   \<and> members after_two_chat_joins ''chat_B'' = [''s2'']
   \<and> recipients after_two_chat_joins (ToRoom ''chat_A'') = [''s2'']
   \<and> recipients after_two_chat_joins (ToRoomExcept ''chat_A'' ''s1'') = [''s2'']"
  by (simp add: members_def after_two_chat_joins_sockets alice_def guest_def)

subsection \<open>Disconnect reconciler\<close>

text \<open>
  Claim C8, as the code has it. On disconnect the events emitted are exactly these, in
  this order: for each of the chat, sanctuary and audio kinds whose current room the
  connection has recorded (a non-empty id), one left notification (\<open>user_left\<close>,
  \<open>participant_left\<close>, \<open>audio_participant_left\<close>) to that room, the departing connection
  excepted; so a connection in a chat room and an audio room gives exactly one
  \<open>user_left\<close> and one \<open>audio_participant_left\<close>. Nothing is emitted for the
  sanctuary-host channel: the events do not depend on the host channel recorded. With
  no current room recorded for the three kinds nothing is emitted, and the handler
  always returns. The connection is gone from the registry and from every room.
\<close>

theorem disconnect_left_notifications:
  "snd (disconnect e sk st) =
      (case currentChatSession sk of
         None \<Rightarrow> []
       | Some A \<Rightarrow>
           if A = [] then []
           else [(ToRoomExcept (''chat_'' @ A) (sock_id sk),
                  user_left (userId sk) (userAlias sk) (now e))]) @
      (case currentSanctuary sk of
         None \<Rightarrow> []
       | Some C \<Rightarrow>
           if C = [] then []
           else [(ToRoomExcept (''sanctuary_'' @ C) (sock_id sk),
                  participant_left (userId sk) (userAlias sk) (now e))]) @
      (case currentAudioRoom sk of
         None \<Rightarrow> []
       | Some R \<Rightarrow>
           if R = [] then []
           else [(ToRoomExcept (''audio_room_'' @ R) (sock_id sk),
                  audio_participant_left (userId sk) (userAlias sk) (now e))])
   \<and> snd (disconnect e (sk\<lparr>currentSanctuaryHost := H\<rparr>) st) = snd (disconnect e sk st)
   \<and> (currentChatSession sk = Some A \<and> A \<noteq> [] \<longrightarrow>
      filter (\<lambda>x. event_name (snd x) = ''user_left'') (snd (disconnect e sk st)) =
        [(ToRoomExcept (''chat_'' @ A) (sock_id sk), user_left (userId sk) (userAlias sk) (now e))])
   \<and> (currentSanctuary sk = Some C \<and> C \<noteq> [] \<longrightarrow>
      filter (\<lambda>x. event_name (snd x) = ''participant_left'') (snd (disconnect e sk st)) =
        [(ToRoomExcept (''sanctuary_'' @ C) (sock_id sk),
          participant_left (userId sk) (userAlias sk) (now e))])
   \<and> (currentAudioRoom sk = Some R \<and> R \<noteq> [] \<longrightarrow>
      filter (\<lambda>x. event_name (snd x) = ''audio_participant_left'') (snd (disconnect e sk st)) =
        [(ToRoomExcept (''audio_room_'' @ R) (sock_id sk),
          audio_participant_left (userId sk) (userAlias sk) (now e))])
   \<and> (\<not> truthy (currentChatSession sk) \<longrightarrow>
      filter (\<lambda>x. event_name (snd x) = ''user_left'') (snd (disconnect e sk st)) = [])
   \<and> (\<not> truthy (currentSanctuary sk) \<longrightarrow>
      filter (\<lambda>x. event_name (snd x) = ''participant_left'') (snd (disconnect e sk st)) = [])
   \<and> (\<not> truthy (currentAudioRoom sk) \<longrightarrow>
      filter (\<lambda>x. event_name (snd x) = ''audio_participant_left'') (snd (disconnect e sk st)) = [])
   \<and> (\<forall>x\<in>set (snd (disconnect e sk st)).
        event_name (snd x) = ''user_left'' \<or> event_name (snd x) = ''participant_left'' \<or>
        event_name (snd x) = ''audio_participant_left'')
   \<and> (\<not> truthy (currentChatSession sk) \<and> \<not> truthy (currentSanctuary sk) \<and>
      \<not> truthy (currentAudioRoom sk) \<longrightarrow> snd (disconnect e sk st) = [])
   \<and> connection (fst (disconnect e sk st)) (sock_id sk) = None
   \<and> (\<forall>r. sock_id sk \<notin> set (members (fst (disconnect e sk st)) r))"
proof (intro conjI impI allI ballI)
  show "snd (disconnect e sk st) =
      (case currentChatSession sk of
         None \<Rightarrow> []
       | Some A \<Rightarrow>
           if A = [] then []
           else [(ToRoomExcept (''chat_'' @ A) (sock_id sk),
                  user_left (userId sk) (userAlias sk) (now e))]) @
      (case currentSanctuary sk of
         None \<Rightarrow> []
       | Some C \<Rightarrow>
           if C = [] then []
           else [(ToRoomExcept (''sanctuary_'' @ C) (sock_id sk),
                  participant_left (userId sk) (userAlias sk) (now e))]) @
      (case currentAudioRoom sk of
         None \<Rightarrow> []
       | Some R \<Rightarrow>
           if R = [] then []
           else [(ToRoomExcept (''audio_room_'' @ R) (sock_id sk),
                  audio_participant_left (userId sk) (userAlias sk) (now e))])"
    by (simp add: disconnect_def when_current_def split: option.splits)
next
  show "snd (disconnect e (sk\<lparr>currentSanctuaryHost := H\<rparr>) st) = snd (disconnect e sk st)"
    by (simp add: disconnect_def when_current_def split: option.splits)
next
  assume "currentChatSession sk = Some A \<and> A \<noteq> []"
  then show "filter (\<lambda>x. event_name (snd x) = ''user_left'') (snd (disconnect e sk st)) =
        [(ToRoomExcept (''chat_'' @ A) (sock_id sk), user_left (userId sk) (userAlias sk) (now e))]"
    by (simp add: disconnect_def filter_when_current) (simp add: when_current_def split: option.splits)
next
  assume "currentSanctuary sk = Some C \<and> C \<noteq> []"
  then show "filter (\<lambda>x. event_name (snd x) = ''participant_left'') (snd (disconnect e sk st)) =
        [(ToRoomExcept (''sanctuary_'' @ C) (sock_id sk),
          participant_left (userId sk) (userAlias sk) (now e))]"
    by (simp add: disconnect_def filter_when_current) (simp add: when_current_def split: option.splits)
next
  assume "currentAudioRoom sk = Some R \<and> R \<noteq> []"
  then show "filter (\<lambda>x. event_name (snd x) = ''audio_participant_left'') (snd (disconnect e sk st)) =
        [(ToRoomExcept (''audio_room_'' @ R) (sock_id sk),
          audio_participant_left (userId sk) (userAlias sk) (now e))]"
    by (simp add: disconnect_def filter_when_current) (simp add: when_current_def split: option.splits)
next
  assume "\<not> truthy (currentChatSession sk)"
  then show "filter (\<lambda>x. event_name (snd x) = ''user_left'') (snd (disconnect e sk st)) = []"
    by (simp add: disconnect_def filter_when_current)
       (simp add: when_current_def truthy_def split: option.splits)
next
  assume "\<not> truthy (currentSanctuary sk)"
  then show "filter (\<lambda>x. event_name (snd x) = ''participant_left'') (snd (disconnect e sk st)) = []"
    by (simp add: disconnect_def filter_when_current)
       (simp add: when_current_def truthy_def split: option.splits)
next
  assume "\<not> truthy (currentAudioRoom sk)"
  then show "filter (\<lambda>x. event_name (snd x) = ''audio_participant_left'')
      (snd (disconnect e sk st)) = []"
    by (simp add: disconnect_def filter_when_current)
       (simp add: when_current_def truthy_def split: option.splits)
next
  fix x assume "x \<in> set (snd (disconnect e sk st))"
  then show "event_name (snd x) = ''user_left'' \<or> event_name (snd x) = ''participant_left'' \<or>
        event_name (snd x) = ''audio_participant_left''"
    by (auto simp: disconnect_def when_current_def split: option.splits if_splits)
next
  assume "\<not> truthy (currentChatSession sk) \<and> \<not> truthy (currentSanctuary sk) \<and>
      \<not> truthy (currentAudioRoom sk)"
  then show "snd (disconnect e sk st) = []"
    by (auto simp: disconnect_def when_current_def truthy_def split: option.splits)
next
  show "connection (fst (disconnect e sk st)) (sock_id sk) = None"
    by (simp add: disconnect_def connection_def find_None_iff)
next
  fix r
  show "sock_id sk \<notin> set (members (fst (disconnect e sk st)) r)"
    by (auto simp: disconnect_def members_def)
qed

theorem disconnect_left_notifications_witness:
  "snd (disconnect env_demo in_chat_and_audio server_demo) =
     [(ToRoomExcept ''chat_A'' ''s2'', user_left ''anonymous_s2'' None 1000),
      (ToRoomExcept ''audio_room_R'' ''s2'', audio_participant_left ''anonymous_s2'' None 1000)]
   \<and> snd (disconnect env_demo in_sanctuary_only server_demo) =
     [(ToRoomExcept ''sanctuary_sid-3'' ''s2'', participant_left ''anonymous_s2'' None 1000)]
   \<and> filter (\<lambda>x. event_name (snd x) = ''user_left'')
       (snd (disconnect env_demo in_sanctuary_only server_demo)) = []
   \<and> snd (disconnect env_demo guest server_demo) = []
   \<and> connection (fst (disconnect env_demo in_chat_and_audio server_demo)) ''s2'' = None"
proof -
  have 4: "\<not> truthy (currentChatSession guest) \<and> \<not> truthy (currentSanctuary guest) \<and>
      \<not> truthy (currentAudioRoom guest)"
    by (simp add: guest_def truthy_def)
  have 5: "\<not> truthy (currentChatSession in_sanctuary_only)"
    by (simp add: in_sanctuary_only_def guest_def truthy_def)
  from disconnect_left_notifications[where sk = in_chat_and_audio and e = env_demo
      and st = server_demo]
  have a: "snd (disconnect env_demo in_chat_and_audio server_demo) =
     [(ToRoomExcept ''chat_A'' ''s2'', user_left ''anonymous_s2'' None 1000),
      (ToRoomExcept ''audio_room_R'' ''s2'', audio_participant_left ''anonymous_s2'' None 1000)]
   \<and> connection (fst (disconnect env_demo in_chat_and_audio server_demo)) ''s2'' = None"
    by (simp add: in_chat_and_audio_def guest_def env_demo_def)
  from disconnect_left_notifications[where sk = in_sanctuary_only and e = env_demo
      and st = server_demo] 5
  have b: "snd (disconnect env_demo in_sanctuary_only server_demo) =
     [(ToRoomExcept ''sanctuary_sid-3'' ''s2'', participant_left ''anonymous_s2'' None 1000)]
   \<and> filter (\<lambda>x. event_name (snd x) = ''user_left'')
       (snd (disconnect env_demo in_sanctuary_only server_demo)) = []"
    by (simp add: in_sanctuary_only_def guest_def env_demo_def)
  from disconnect_left_notifications[where sk = guest and e = env_demo and st = server_demo] 4
  have c: "snd (disconnect env_demo guest server_demo) = []" by blast
  from a b c show ?thesis by blast
qed

text \<open>
  Claim C8 as stated fails for the host channel: the guest, joined to the host channel of
  \<open>sid-3\<close>, disconnects, and no event is emitted.
\<close>

theorem host_channel_left_silently_counterexample:
  "members after_host_join ''sanctuary_host_sid-3'' = [''s2'']
   \<and> snd (handle env_demo ''s2'' Disconnect after_host_join) = []"
  by (simp add: members_def handle_def connection_def disconnect_def when_current_def
      after_host_join_sockets alice_def guest_def)

end
